theory Spec2Isabelle
  imports
    Main
    "HOL-Library.Word"
    "HOL-Library.Signed_Division"
    "HOL-Library.Char_ord"
    "HOL-Library.List_Lexorder"
begin

section \<open>The DART communication layer (dart_communication.c)\<close>

text \<open>
  The runtime sits on a message-passing transport (MPI-3). The transport is external:
  the model records every call the runtime makes in a trace, and takes the transport's
  answers (success or failure of a call, the flag of a test) from an oracle that may
  depend on the calls made so far. Buffer contents are not modelled; a transfer is
  recorded by its element count, transport datatype, target rank, displacement and
  window, a local copy by its address and byte count.
\<close>

datatype dart_ret_t = DART_OK | DART_ERR_INVAL | DART_ERR_NOTFOUND | DART_ERR_OTHER

type_synonym size_t = "64 word"
type_synonym uint64_t = "64 word"
type_synonym dart_datatype_t = nat
type_synonym dart_operation_t = nat
type_synonym MPI_Win = nat
type_synonym MPI_Comm = nat

text \<open>\<open>#define MAX_CONTIG_ELEMENTS INT_MAX\<close>, compared and divided at type \<open>size_t\<close>.\<close>

definition MAX_CONTIG_ELEMENTS :: size_t where
  "MAX_CONTIG_ELEMENTS = 2147483647"

text \<open>
  The transport's element counts are C \<open>int\<close>s. The chunked transfers pass their
  \<open>size_t\<close> counts (\<open>nchunks\<close>, \<open>remainder\<close>) to these parameters, which converts them:
  a value up to \<open>INT_MAX\<close> is kept, a larger one is reduced modulo \<open>2^32\<close> to the range
  of \<open>int\<close> (the conversion of the compilers the runtime is built with).
  \<open>dart_allreduce\<close>, \<open>dart_reduce\<close>, \<open>dart_send\<close>, \<open>dart_recv\<close> and \<open>dart_sendrecv\<close>
  refuse counts above \<open>INT_MAX\<close> first, so their conversion keeps the value and
  their calls are recorded with the \<open>size_t\<close> count.
\<close>

definition int_of_size_t :: "size_t \<Rightarrow> int" where
  "int_of_size_t n = signed_take_bit 31 (uint n)"

text \<open>
  The transport datatype of a call: the base type \<open>dart__mpi__datatype(dtype)\<close>, or the
  aggregate \<open>dart__mpi__max_chunk_datatype[dtype]\<close> of \<open>MAX_CONTIG_ELEMENTS\<close> base elements.
\<close>

datatype MPI_Datatype =
    dart__mpi__datatype dart_datatype_t
  | dart__mpi__max_chunk_datatype dart_datatype_t

text \<open>
  A request names the non-blocking transfer that created it (count as passed to the
  transport, datatype, target, displacement, window); \<open>MPI_REQUEST_NULL\<close> is the
  transport's null request.
\<close>

datatype rma_kind = RGET | RPUT

datatype MPI_Request =
    MPI_REQUEST_NULL
  | Request rma_kind int MPI_Datatype int uint64_t MPI_Win

datatype mpi_call =
    MPI_Get int MPI_Datatype int uint64_t MPI_Win
  | MPI_Put int MPI_Datatype int uint64_t MPI_Win
  | MPI_Accumulate int MPI_Datatype int uint64_t dart_operation_t MPI_Win
  | MPI_Rget int MPI_Datatype int uint64_t MPI_Win
  | MPI_Rput int MPI_Datatype int uint64_t MPI_Win
  | MPI_Fetch_and_op MPI_Datatype int uint64_t dart_operation_t MPI_Win
  | MPI_Compare_and_swap MPI_Datatype int uint64_t MPI_Win
  | MPI_Win_flush int MPI_Win
  | MPI_Waitall "MPI_Request list"
  | MPI_Testall "MPI_Request list"
  | MPI_Bcast int MPI_Datatype int MPI_Comm
  | MPI_Scatter int MPI_Datatype int MPI_Comm
  | MPI_Gather int MPI_Datatype int MPI_Comm
  | MPI_Allreduce size_t MPI_Datatype dart_operation_t MPI_Comm
  | MPI_Reduce size_t MPI_Datatype dart_operation_t int MPI_Comm
  | MPI_Send size_t MPI_Datatype int int MPI_Comm
  | MPI_Recv size_t MPI_Datatype int int MPI_Comm
  | MPI_Sendrecv size_t MPI_Datatype int int size_t MPI_Datatype int int MPI_Comm
  | memcpy uint64_t size_t

text \<open>
  \<open>dart_team_data_t\<close>, as far as the communication functions read it. The segment table
  (\<open>dart_segment_get_disp\<close>, \<open>dart_segment_get_baseptr\<close>) is a lookup that can fail. The
  source indexes \<open>sharedmem_tab\<close> without a bounds check; it is read here as a function
  of the index.
\<close>

record dart_team_data_t =
  team_size :: int
  team_unitid :: int
  window :: MPI_Win
  comm :: MPI_Comm
  sharedmem_tab :: "int \<Rightarrow> int"
  dart_segment_get_disp :: "int \<Rightarrow> int \<Rightarrow> uint64_t option"
  dart_segment_get_baseptr :: "int \<Rightarrow> int \<Rightarrow> uint64_t option"

record dart_gptr_t =
  unitid :: int
  segid :: int
  teamid :: int
  offset :: uint64_t

text \<open>
  The process-wide state the functions read: the team list, the window and base address
  of the local allocation pool, the element sizes, whether shared windows are compiled
  in (\<open>!defined(DART_MPI_DISABLE_SHARED_WINDOWS)\<close>), and the transport's answers.
\<close>

record dart_env =
  dart_adapt_teamlist_get :: "int \<Rightarrow> dart_team_data_t option"
  dart_win_local_alloc :: MPI_Win
  dart_mempool_localalloc :: uint64_t
  dart_sharedmem_local_baseptr_set :: "int \<Rightarrow> uint64_t"
  dart__mpi__datatype_sizeof :: "dart_datatype_t \<Rightarrow> size_t"
  DART_TYPE_BYTE :: dart_datatype_t
  DART_TYPE_LONGLONG :: dart_datatype_t
  DART_TEAM_ALL :: int
  shared_windows :: bool
  mpi_success :: "mpi_call list \<Rightarrow> mpi_call \<Rightarrow> bool"
  testall_flag :: "mpi_call list \<Rightarrow> MPI_Request list \<Rightarrow> bool"

text \<open>
  \<open>struct dart_handle_struct\<close>: \<open>reqs\<close> holds the first \<open>num_reqs\<close> entries of the request
  array. A handle variable (\<open>dart_handle_t\<close>) is the address of a live struct or
  \<open>DART_HANDLE_NULL\<close> (\<open>None\<close>).
\<close>

record dart_handle_struct =
  dest :: int
  win :: MPI_Win
  needs_flush :: bool
  reqs :: "MPI_Request list"

type_synonym dart_handle_t = "nat option"

text \<open>The state a call changes: the trace of transport calls and the heap of handles.\<close>

record world =
  trace :: "mpi_call list"
  heap :: "(nat \<times> dart_handle_struct) list"

definition mpi :: "dart_env \<Rightarrow> mpi_call \<Rightarrow> world \<Rightarrow> bool \<times> world" where
  "mpi env c w = (mpi_success env (trace w) c, w\<lparr>trace := trace w @ [c]\<rparr>)"

text \<open>\<open>calloc\<close> returns an address that is not live; \<open>free\<close> removes the struct.\<close>

definition fresh_addr :: "(nat \<times> dart_handle_struct) list \<Rightarrow> nat" where
  "fresh_addr h = Suc (fold max (map fst h) 0)"

definition calloc :: "dart_handle_struct \<Rightarrow> world \<Rightarrow> nat \<times> world" where
  "calloc s w = (fresh_addr (heap w), w\<lparr>heap := heap w @ [(fresh_addr (heap w), s)]\<rparr>)"

definition free :: "nat \<Rightarrow> world \<Rightarrow> world" where
  "free a w = w\<lparr>heap := filter (\<lambda>p. fst p \<noteq> a) (heap w)\<rparr>"

definition add_req :: "nat \<Rightarrow> MPI_Request \<Rightarrow> world \<Rightarrow> world" where
  "add_req a r w =
     w\<lparr>heap := map (\<lambda>p. if fst p = a then (a, (snd p)\<lparr>reqs := reqs (snd p) @ [r]\<rparr>) else p)
                  (heap w)\<rparr>"

definition live :: "world \<Rightarrow> nat \<Rightarrow> dart_handle_struct option" where
  "live w a = map_of (heap w) a"

text \<open>
  \<open>CHECK_UNITID_RANGE(_unitid, _team_data)\<close>: true when the macro returns
  \<open>DART_ERR_INVAL\<close> from the enclosing function.
\<close>

definition CHECK_UNITID_RANGE :: "int \<Rightarrow> dart_team_data_t \<Rightarrow> bool" where
  "CHECK_UNITID_RANGE unit_id team_data = (unit_id < 0 \<or> unit_id > team_size team_data)"

text \<open>
  Window and displacement of a global pointer: the team's window and the segment's
  displacement added to the offset for a collective segment (\<open>seg_id \<noteq> 0\<close>), the
  local-allocation window otherwise. \<open>None\<close> when the segment lookup fails.
\<close>

definition resolve_win ::
  "dart_env \<Rightarrow> dart_team_data_t \<Rightarrow> dart_gptr_t \<Rightarrow> (MPI_Win \<times> uint64_t) option" where
  "resolve_win env team_data gptr =
     (if segid gptr \<noteq> 0 then
        (case dart_segment_get_disp team_data (segid gptr) (unitid gptr) of
           None \<Rightarrow> None
         | Some disp_s \<Rightarrow> Some (window team_data, offset gptr + disp_s))
      else Some (dart_win_local_alloc env, offset gptr))"

text \<open>
  The chunking block of the blocking transfers: \<open>nchunks = nelem / MAX_CONTIG_ELEMENTS\<close>
  calls' worth of the chunk datatype first, then \<open>remainder = nelem % MAX_CONTIG_ELEMENTS\<close>
  base elements at the advanced offset, each count converted to the transport's \<open>int\<close>.
  A failing transport call ends the operation with \<open>DART_ERR_INVAL\<close>.
\<close>

definition chunked ::
  "dart_env \<Rightarrow> (int \<Rightarrow> MPI_Datatype \<Rightarrow> uint64_t \<Rightarrow> mpi_call) \<Rightarrow> dart_datatype_t \<Rightarrow>
   size_t \<Rightarrow> uint64_t \<Rightarrow> world \<Rightarrow> dart_ret_t \<times> world" where
  "chunked env call dtype nelem offs w =
     (let nchunks = nelem div MAX_CONTIG_ELEMENTS;
          remainder = nelem mod MAX_CONTIG_ELEMENTS;
          (ok1, offs1, w1) =
            (if nchunks > 0 then
               (case mpi env (call (int_of_size_t nchunks)
                                (dart__mpi__max_chunk_datatype dtype) offs) w of
                  (ok, w') \<Rightarrow> (ok, offs + nchunks * MAX_CONTIG_ELEMENTS, w'))
             else (True, offs, w))
      in if \<not> ok1 then (DART_ERR_INVAL, w1)
         else if remainder > 0 then
           (case mpi env (call (int_of_size_t remainder) (dart__mpi__datatype dtype) offs1) w1 of
              (ok, w2) \<Rightarrow> (if ok then DART_OK else DART_ERR_INVAL, w2))
         else (DART_OK, w1))"

text \<open>\<open>get_shared_mem\<close>: the local copy of the shared-memory fast path.\<close>

definition get_shared_mem ::
  "dart_env \<Rightarrow> dart_team_data_t \<Rightarrow> dart_gptr_t \<Rightarrow> size_t \<Rightarrow> dart_datatype_t \<Rightarrow> world \<Rightarrow>
   dart_ret_t \<times> world" where
  "get_shared_mem env team_data gptr nelem dtype w =
     (let luid = sharedmem_tab team_data (unitid gptr) in
      case (if segid gptr \<noteq> 0 then dart_segment_get_baseptr team_data (segid gptr) luid
            else Some (dart_sharedmem_local_baseptr_set env luid)) of
        None \<Rightarrow> (DART_ERR_INVAL, w)
      | Some baseptr \<Rightarrow>
          (DART_OK,
           w\<lparr>trace := trace w @
              [memcpy (baseptr + offset gptr) (nelem * dart__mpi__datatype_sizeof env dtype)]\<rparr>))"

text \<open>\<open>dart_get\<close> and \<open>dart_put\<close>.\<close>

definition dart_get ::
  "dart_env \<Rightarrow> dart_gptr_t \<Rightarrow> size_t \<Rightarrow> dart_datatype_t \<Rightarrow> world \<Rightarrow> dart_ret_t \<times> world" where
  "dart_get env gptr nelem dtype w =
     (case dart_adapt_teamlist_get env (teamid gptr) of
        None \<Rightarrow> (DART_ERR_INVAL, w)
      | Some team_data \<Rightarrow>
          if CHECK_UNITID_RANGE (unitid gptr) team_data then (DART_ERR_INVAL, w)
          else if shared_windows env \<and> segid gptr \<ge> 0
                  \<and> sharedmem_tab team_data (unitid gptr) \<ge> 0
          then get_shared_mem env team_data gptr nelem dtype w
          else
            (case resolve_win env team_data gptr of
               None \<Rightarrow> (DART_ERR_INVAL, w)
             | Some (mwin, offs) \<Rightarrow>
                 if team_unitid team_data = unitid gptr then
                   (DART_OK,
                    w\<lparr>trace := trace w @
                       [memcpy (if segid gptr \<noteq> 0 then offs
                                else dart_mempool_localalloc env + offset gptr)
                               (nelem * dart__mpi__datatype_sizeof env dtype)]\<rparr>)
                 else
                   chunked env (\<lambda>n ty d. MPI_Get n ty (unitid gptr) d mwin) dtype nelem offs w))"

definition dart_put ::
  "dart_env \<Rightarrow> dart_gptr_t \<Rightarrow> size_t \<Rightarrow> dart_datatype_t \<Rightarrow> world \<Rightarrow> dart_ret_t \<times> world" where
  "dart_put env gptr nelem dtype w =
     (case dart_adapt_teamlist_get env (teamid gptr) of
        None \<Rightarrow> (DART_ERR_INVAL, w)
      | Some team_data \<Rightarrow>
          if CHECK_UNITID_RANGE (unitid gptr) team_data then (DART_ERR_INVAL, w)
          else
            (case resolve_win env team_data gptr of
               None \<Rightarrow> (DART_ERR_INVAL, w)
             | Some (mwin, offs) \<Rightarrow>
                 if unitid gptr = team_unitid team_data then
                   (DART_OK,
                    w\<lparr>trace := trace w @
                       [memcpy (if segid gptr \<noteq> 0 then offs
                                else dart_mempool_localalloc env + offset gptr)
                               (nelem * dart__mpi__datatype_sizeof env dtype)]\<rparr>)
                 else
                   chunked env (\<lambda>n ty d. MPI_Put n ty (unitid gptr) d mwin) dtype nelem offs w))"

text \<open>\<open>dart_accumulate\<close>, \<open>dart_fetch_and_op\<close> and \<open>dart_compare_and_swap\<close> have no fast path.
  The last two ignore the transport's return value.\<close>

definition dart_accumulate ::
  "dart_env \<Rightarrow> dart_gptr_t \<Rightarrow> size_t \<Rightarrow> dart_datatype_t \<Rightarrow> dart_operation_t \<Rightarrow> world \<Rightarrow>
   dart_ret_t \<times> world" where
  "dart_accumulate env gptr nelem dtype op w =
     (case dart_adapt_teamlist_get env (teamid gptr) of
        None \<Rightarrow> (DART_ERR_INVAL, w)
      | Some team_data \<Rightarrow>
          if CHECK_UNITID_RANGE (unitid gptr) team_data then (DART_ERR_INVAL, w)
          else
            (case resolve_win env team_data gptr of
               None \<Rightarrow> (DART_ERR_INVAL, w)
             | Some (mwin, offs) \<Rightarrow>
                 chunked env (\<lambda>n ty d. MPI_Accumulate n ty (unitid gptr) d op mwin)
                   dtype nelem offs w))"

definition dart_fetch_and_op ::
  "dart_env \<Rightarrow> dart_gptr_t \<Rightarrow> dart_datatype_t \<Rightarrow> dart_operation_t \<Rightarrow> world \<Rightarrow>
   dart_ret_t \<times> world" where
  "dart_fetch_and_op env gptr dtype op w =
     (case dart_adapt_teamlist_get env (teamid gptr) of
        None \<Rightarrow> (DART_ERR_INVAL, w)
      | Some team_data \<Rightarrow>
          if CHECK_UNITID_RANGE (unitid gptr) team_data then (DART_ERR_INVAL, w)
          else
            (case resolve_win env team_data gptr of
               None \<Rightarrow> (DART_ERR_INVAL, w)
             | Some (mwin, offs) \<Rightarrow>
                 (DART_OK,
                  snd (mpi env (MPI_Fetch_and_op (dart__mpi__datatype dtype)
                                  (unitid gptr) offs op mwin) w))))"

definition dart_compare_and_swap ::
  "dart_env \<Rightarrow> dart_gptr_t \<Rightarrow> dart_datatype_t \<Rightarrow> world \<Rightarrow> dart_ret_t \<times> world" where
  "dart_compare_and_swap env gptr dtype w =
     (case dart_adapt_teamlist_get env (teamid gptr) of
        None \<Rightarrow> (DART_ERR_INVAL, w)
      | Some team_data \<Rightarrow>
          if CHECK_UNITID_RANGE (unitid gptr) team_data then (DART_ERR_INVAL, w)
          else if dtype > DART_TYPE_LONGLONG env then (DART_ERR_INVAL, w)
          else
            (case resolve_win env team_data gptr of
               None \<Rightarrow> (DART_ERR_INVAL, w)
             | Some (mwin, offs) \<Rightarrow>
                 (DART_OK,
                  snd (mpi env (MPI_Compare_and_swap (dart__mpi__datatype dtype)
                                  (unitid gptr) offs mwin) w))))"

text \<open>
  \<open>dart_get_handle\<close> and \<open>dart_put_handle\<close>. Both set \<open>*handleptr = DART_HANDLE_NULL\<close>
  first and assign the handle last; the second component of the result is the final
  value of \<open>*handleptr\<close>. The transfer block is the same in both but for the transport
  call and the \<open>needs_flush\<close> bit: \<open>calloc\<close> the handle, issue the chunk transfer and
  the remainder transfer with \<open>&handle->reqs[handle->num_reqs++]\<close> (the \<open>size_t\<close> counts
  \<open>nchunks\<close> and \<open>remainder\<close> converted to the \<open>int\<close> count of \<open>MPI_Rget\<close> and
  \<open>MPI_Rput\<close>), and \<open>free\<close> the handle when a call fails. The source does not test
  \<open>calloc\<close>'s result; allocation always succeeds here.
\<close>

definition rma_call ::
  "rma_kind \<Rightarrow> int \<Rightarrow> MPI_Datatype \<Rightarrow> int \<Rightarrow> uint64_t \<Rightarrow> MPI_Win \<Rightarrow> mpi_call" where
  "rma_call k n ty t d wn = (case k of RGET \<Rightarrow> MPI_Rget n ty t d wn | RPUT \<Rightarrow> MPI_Rput n ty t d wn)"

definition issue_request ::
  "dart_env \<Rightarrow> rma_kind \<Rightarrow> int \<Rightarrow> MPI_Datatype \<Rightarrow> int \<Rightarrow> uint64_t \<Rightarrow> MPI_Win \<Rightarrow> nat \<Rightarrow>
   world \<Rightarrow> bool \<times> world" where
  "issue_request env k n ty t d wn handle w =
     (case mpi env (rma_call k n ty t d wn) w of
        (ok, w') \<Rightarrow> (ok, add_req handle (Request k n ty t d wn) w'))"

definition handle_transfer ::
  "dart_env \<Rightarrow> rma_kind \<Rightarrow> bool \<Rightarrow> int \<Rightarrow> MPI_Win \<Rightarrow> dart_datatype_t \<Rightarrow> size_t \<Rightarrow> uint64_t \<Rightarrow>
   world \<Rightarrow> dart_ret_t \<times> dart_handle_t \<times> world" where
  "handle_transfer env k flush target mwin dtype nelem offs w =
     (let nchunks = nelem div MAX_CONTIG_ELEMENTS;
          remainder = nelem mod MAX_CONTIG_ELEMENTS;
          (handle, w0) =
            calloc \<lparr>dest = target, win = mwin, needs_flush = flush, reqs = []\<rparr> w;
          (ok1, offs1, w1) =
            (if nchunks > 0 then
               (case issue_request env k (int_of_size_t nchunks)
                       (dart__mpi__max_chunk_datatype dtype) target offs mwin handle w0 of
                  (ok, w') \<Rightarrow> (ok, offs + nchunks * MAX_CONTIG_ELEMENTS, w'))
             else (True, offs, w0))
      in if \<not> ok1 then (DART_ERR_INVAL, None, free handle w1)
         else if remainder > 0 then
           (case issue_request env k (int_of_size_t remainder) (dart__mpi__datatype dtype)
                   target offs1 mwin handle w1 of
              (ok, w2) \<Rightarrow>
                if ok then (DART_OK, Some handle, w2)
                else (DART_ERR_INVAL, None, free handle w2))
         else (DART_OK, Some handle, w1))"

definition dart_get_handle ::
  "dart_env \<Rightarrow> dart_gptr_t \<Rightarrow> size_t \<Rightarrow> dart_datatype_t \<Rightarrow> world \<Rightarrow>
   dart_ret_t \<times> dart_handle_t \<times> world" where
  "dart_get_handle env gptr nelem dtype w =
     (case dart_adapt_teamlist_get env (teamid gptr) of
        None \<Rightarrow> (DART_ERR_INVAL, None, w)
      | Some team_data \<Rightarrow>
          if CHECK_UNITID_RANGE (unitid gptr) team_data then (DART_ERR_INVAL, None, w)
          else if shared_windows env \<and> segid gptr \<ge> 0
                  \<and> sharedmem_tab team_data (unitid gptr) \<ge> 0
          then (case get_shared_mem env team_data gptr nelem dtype w of
                  (ret, w') \<Rightarrow> (ret, None, w'))
          else
            (case resolve_win env team_data gptr of
               None \<Rightarrow> (DART_ERR_INVAL, None, w)
             | Some (mwin, offs) \<Rightarrow>
                 handle_transfer env RGET False (unitid gptr) mwin dtype nelem offs w))"

definition dart_put_handle ::
  "dart_env \<Rightarrow> dart_gptr_t \<Rightarrow> size_t \<Rightarrow> dart_datatype_t \<Rightarrow> world \<Rightarrow>
   dart_ret_t \<times> dart_handle_t \<times> world" where
  "dart_put_handle env gptr nelem dtype w =
     (case dart_adapt_teamlist_get env (teamid gptr) of
        None \<Rightarrow> (DART_ERR_INVAL, None, w)
      | Some team_data \<Rightarrow>
          if CHECK_UNITID_RANGE (unitid gptr) team_data then (DART_ERR_INVAL, None, w)
          else
            (case resolve_win env team_data gptr of
               None \<Rightarrow> (DART_ERR_INVAL, None, w)
             | Some (mwin, offs) \<Rightarrow>
                 handle_transfer env RPUT True (unitid gptr) mwin dtype nelem offs w))"

subsection \<open>Waiting for and testing handles\<close>

text \<open>
  A handle pointer argument (\<open>dart_handle_t *\<close>) is \<open>None\<close> for a NULL pointer and
  \<open>Some v\<close> for a pointer to a variable holding \<open>v\<close>; the result gives the variable's
  final value. Dereferencing a handle that is not live is undefined in C: the model
  returns \<open>None\<close> for the whole call.
\<close>

definition dart_wait_local ::
  "dart_env \<Rightarrow> dart_handle_t option \<Rightarrow> world \<Rightarrow>
   (dart_ret_t \<times> dart_handle_t option \<times> world) option" where
  "dart_wait_local env handleptr w =
     (case handleptr of
        Some (Some handle) \<Rightarrow>
          (case live w handle of
             None \<Rightarrow> None
           | Some h \<Rightarrow>
               if length (reqs h) > 0 then
                 (case mpi env (MPI_Waitall (reqs h)) w of
                    (ok, w1) \<Rightarrow>
                      if \<not> ok then Some (DART_ERR_INVAL, handleptr, w1)
                      else Some (DART_OK, Some None, free handle w1))
               else Some (DART_OK, Some None, free handle w))
      | _ \<Rightarrow> Some (DART_OK, handleptr, w))"

definition dart_wait ::
  "dart_env \<Rightarrow> dart_handle_t option \<Rightarrow> world \<Rightarrow>
   (dart_ret_t \<times> dart_handle_t option \<times> world) option" where
  "dart_wait env handleptr w =
     (case handleptr of
        Some (Some handle) \<Rightarrow>
          (case live w handle of
             None \<Rightarrow> None
           | Some h \<Rightarrow>
               if length (reqs h) > 0 then
                 (case mpi env (MPI_Waitall (reqs h)) w of
                    (ok, w1) \<Rightarrow>
                      if \<not> ok then Some (DART_ERR_INVAL, handleptr, w1)
                      else if needs_flush h then
                        (case mpi env (MPI_Win_flush (dest h) (win h)) w1 of
                           (ok', w2) \<Rightarrow>
                             if \<not> ok' then Some (DART_ERR_INVAL, handleptr, w2)
                             else Some (DART_OK, Some None, free handle w2))
                      else Some (DART_OK, Some None, free handle w1))
               else Some (DART_OK, Some None, free handle w))
      | _ \<Rightarrow> Some (DART_OK, handleptr, w))"

text \<open>The three loops of \<open>dart_waitall\<close> over \<open>handles[0..n)\<close>: copying the non-null
  requests of the non-null handles, flushing the handles that need it, freeing.\<close>

fun collect_reqs :: "world \<Rightarrow> dart_handle_t list \<Rightarrow> MPI_Request list option" where
  "collect_reqs w [] = Some []"
| "collect_reqs w (None # hs) = collect_reqs w hs"
| "collect_reqs w (Some a # hs) =
     (case live w a of
        None \<Rightarrow> None
      | Some h \<Rightarrow>
          (case collect_reqs w hs of
             None \<Rightarrow> None
           | Some rs \<Rightarrow> Some (filter (\<lambda>r. r \<noteq> MPI_REQUEST_NULL) (reqs h) @ rs)))"

fun flush_handles :: "dart_env \<Rightarrow> dart_handle_t list \<Rightarrow> world \<Rightarrow> (bool \<times> world) option" where
  "flush_handles env [] w = Some (True, w)"
| "flush_handles env (None # hs) w = flush_handles env hs w"
| "flush_handles env (Some a # hs) w =
     (case live w a of
        None \<Rightarrow> None
      | Some h \<Rightarrow>
          if needs_flush h then
            (case mpi env (MPI_Win_flush (dest h) (win h)) w of
               (ok, w') \<Rightarrow> if ok then flush_handles env hs w' else Some (False, w'))
          else flush_handles env hs w)"

fun free_handles :: "dart_handle_t list \<Rightarrow> world \<Rightarrow> world option" where
  "free_handles [] w = Some w"
| "free_handles (None # hs) w = free_handles hs w"
| "free_handles (Some a # hs) w =
     (case live w a of None \<Rightarrow> None | Some h \<Rightarrow> free_handles hs (free a w))"

definition INT_MAX :: size_t where
  "INT_MAX = 2147483647"

text \<open>
  \<open>dart_waitall(handles, n)\<close>: \<open>handles\<close> is \<open>None\<close> for a NULL array. Reading past the
  end of the array (\<open>n\<close> larger than its length) is undefined. The tests come in the
  order of the source: \<open>n == 0\<close>, then \<open>n > INT_MAX\<close>, then \<open>handles != NULL\<close>. When no
  request was collected (\<open>r_n == 0\<close>) the source returns \<open>DART_OK\<close> at once, before the
  loops that flush and free. The transport call carries the collected requests as a
  list; the source passes their number \<open>r_n\<close>, a \<open>size_t\<close> of at most \<open>2 * n\<close>, as the
  \<open>int\<close> count, which is the length of the list for fewer than \<open>2^31\<close> requests.
\<close>

definition dart_waitall ::
  "dart_env \<Rightarrow> dart_handle_t list option \<Rightarrow> size_t \<Rightarrow> world \<Rightarrow>
   (dart_ret_t \<times> dart_handle_t list option \<times> world) option" where
  "dart_waitall env handles n w =
     (if n = 0 then Some (DART_OK, handles, w)
      else if n > INT_MAX then Some (DART_ERR_INVAL, handles, w)
      else
        (case handles of
           None \<Rightarrow> Some (DART_OK, handles, w)
         | Some hs \<Rightarrow>
             if unat n > length hs then None
             else
               (case collect_reqs w (take (unat n) hs) of
                  None \<Rightarrow> None
                | Some mpi_req \<Rightarrow>
                    if length mpi_req > 0 then
                      (case mpi env (MPI_Waitall mpi_req) w of
                         (ok, w1) \<Rightarrow>
                           if \<not> ok then Some (DART_ERR_INVAL, handles, w1)
                           else
                             (case flush_handles env (take (unat n) hs) w1 of
                                None \<Rightarrow> None
                              | Some (ok', w2) \<Rightarrow>
                                  if \<not> ok' then Some (DART_ERR_INVAL, handles, w2)
                                  else
                                    (case free_handles (take (unat n) hs) w2 of
                                       None \<Rightarrow> None
                                     | Some w3 \<Rightarrow>
                                         Some (DART_OK,
                                               Some (replicate (unat n) None @ drop (unat n) hs),
                                               w3))))
                    else Some (DART_OK, handles, w))))"

definition dart_waitall_local ::
  "dart_env \<Rightarrow> dart_handle_t list option \<Rightarrow> size_t \<Rightarrow> world \<Rightarrow>
   (dart_ret_t \<times> dart_handle_t list option \<times> world) option" where
  "dart_waitall_local env handles num_handles w =
     (if num_handles = 0 then Some (DART_OK, handles, w)
      else if num_handles > INT_MAX then Some (DART_ERR_INVAL, handles, w)
      else
        (case handles of
           None \<Rightarrow> Some (DART_OK, handles, w)
         | Some hs \<Rightarrow>
             if unat num_handles > length hs then None
             else
               (case collect_reqs w (take (unat num_handles) hs) of
                  None \<Rightarrow> None
                | Some mpi_req \<Rightarrow>
                    if length mpi_req > 0 then
                      (case mpi env (MPI_Waitall mpi_req) w of
                         (ok, w1) \<Rightarrow>
                           if \<not> ok then Some (DART_ERR_INVAL, handles, w1)
                           else
                             (case free_handles (take (unat num_handles) hs) w1 of
                                None \<Rightarrow> None
                              | Some w3 \<Rightarrow>
                                  Some (DART_OK,
                                        Some (replicate (unat num_handles) None
                                              @ drop (unat num_handles) hs),
                                        w3)))
                    else Some (DART_OK, handles, w))))"

text \<open>
  \<open>dart_test_local(handleptr, is_finished)\<close>. The out-parameter \<open>is_finished\<close> is \<open>None\<close>
  for a NULL pointer and \<open>Some v\<close> for a pointer to an \<open>int32_t\<close> holding \<open>v\<close>; writing
  through a NULL pointer is undefined. The last test of the source is
  \<open>if (is_finished)\<close>: it tests the pointer, not the flag the transport wrote.
\<close>

definition dart_test_local ::
  "dart_env \<Rightarrow> dart_handle_t option \<Rightarrow> int option \<Rightarrow> world \<Rightarrow>
   (dart_ret_t \<times> dart_handle_t option \<times> int option \<times> world) option" where
  "dart_test_local env handleptr is_finished w =
     (case is_finished of
        None \<Rightarrow> None
      | Some v \<Rightarrow>
          (case handleptr of
             Some (Some handle) \<Rightarrow>
               (case live w handle of
                  None \<Rightarrow> None
                | Some h \<Rightarrow>
                    if length (reqs h) = 0 then Some (DART_OK, handleptr, Some 1, w)
                    else
                      (case mpi env (MPI_Testall (reqs h)) w of
                         (ok, w1) \<Rightarrow>
                           if \<not> ok then Some (DART_ERR_OTHER, handleptr, is_finished, w1)
                           else
                             (let flag = (if testall_flag env (trace w) (reqs h)
                                          then 1 else 0 :: int)
                              in if is_finished \<noteq> None
                                 then Some (DART_OK, Some None, Some flag, free handle w1)
                                 else Some (DART_OK, handleptr, Some flag, w1))))
           | _ \<Rightarrow> Some (DART_OK, handleptr, Some 1, w)))"

text \<open>
  \<open>dart_testall_local\<close>, the array variant, tests the flag itself
  (\<open>if (*is_finished)\<close>) before it frees the handles.
\<close>

definition dart_testall_local ::
  "dart_env \<Rightarrow> dart_handle_t list option \<Rightarrow> size_t \<Rightarrow> int option \<Rightarrow> world \<Rightarrow>
   (dart_ret_t \<times> dart_handle_t list option \<times> int option \<times> world) option" where
  "dart_testall_local env handles n is_finished w =
     (case handles of
        None \<Rightarrow> Some (DART_OK, handles, is_finished, w)
      | Some hs \<Rightarrow>
          if n = 0 then Some (DART_OK, handles, is_finished, w)
          else if unat n > length hs then None
          else
            (case collect_reqs w (take (unat n) hs) of
               None \<Rightarrow> None
             | Some mpi_req \<Rightarrow>
                 if length mpi_req \<noteq> 0 then
                   (case is_finished of
                      None \<Rightarrow> None
                    | Some v \<Rightarrow>
                        (case mpi env (MPI_Testall mpi_req) w of
                           (ok, w1) \<Rightarrow>
                             if \<not> ok then Some (DART_ERR_OTHER, handles, is_finished, w1)
                             else if testall_flag env (trace w) mpi_req then
                               (case free_handles (take (unat n) hs) w1 of
                                  None \<Rightarrow> None
                                | Some w2 \<Rightarrow>
                                    Some (DART_OK,
                                          Some (replicate (unat n) None @ drop (unat n) hs),
                                          Some 1, w2))
                             else Some (DART_OK, handles, Some 0, w1)))
                 else Some (DART_OK, handles, is_finished, w)))"

subsection \<open>Blocking transfers\<close>

text \<open>
  \<open>dart_put_blocking\<close> inlines the lookup and copy of \<open>get_shared_mem\<close> for its fast
  path and ends with a flush of the target; \<open>dart_get_blocking\<close> issues the chunked
  reads as requests and waits for them (the result of that wait is not tested).
\<close>

definition dart_put_blocking ::
  "dart_env \<Rightarrow> dart_gptr_t \<Rightarrow> size_t \<Rightarrow> dart_datatype_t \<Rightarrow> world \<Rightarrow> dart_ret_t \<times> world" where
  "dart_put_blocking env gptr nelem dtype w =
     (case dart_adapt_teamlist_get env (teamid gptr) of
        None \<Rightarrow> (DART_ERR_INVAL, w)
      | Some team_data \<Rightarrow>
          if CHECK_UNITID_RANGE (unitid gptr) team_data then (DART_ERR_INVAL, w)
          else if shared_windows env \<and> segid gptr \<ge> 0
                  \<and> sharedmem_tab team_data (unitid gptr) \<ge> 0
          then get_shared_mem env team_data gptr nelem dtype w
          else
            (case resolve_win env team_data gptr of
               None \<Rightarrow> (DART_ERR_INVAL, w)
             | Some (mwin, offs) \<Rightarrow>
                 if unitid gptr = team_unitid team_data then
                   (DART_OK,
                    w\<lparr>trace := trace w @
                       [memcpy (if segid gptr \<noteq> 0 then offs
                                else dart_mempool_localalloc env + offset gptr)
                               (nelem * dart__mpi__datatype_sizeof env dtype)]\<rparr>)
                 else
                   (case chunked env (\<lambda>n ty d. MPI_Put n ty (unitid gptr) d mwin)
                           dtype nelem offs w of
                      (ret, w1) \<Rightarrow>
                        if ret \<noteq> DART_OK then (ret, w1)
                        else
                          (case mpi env (MPI_Win_flush (unitid gptr) mwin) w1 of
                             (ok, w2) \<Rightarrow> (if ok then DART_OK else DART_ERR_INVAL, w2)))))"

definition dart_get_blocking ::
  "dart_env \<Rightarrow> dart_gptr_t \<Rightarrow> size_t \<Rightarrow> dart_datatype_t \<Rightarrow> world \<Rightarrow> dart_ret_t \<times> world" where
  "dart_get_blocking env gptr nelem dtype w =
     (case dart_adapt_teamlist_get env (teamid gptr) of
        None \<Rightarrow> (DART_ERR_INVAL, w)
      | Some team_data \<Rightarrow>
          if CHECK_UNITID_RANGE (unitid gptr) team_data then (DART_ERR_INVAL, w)
          else if shared_windows env \<and> segid gptr \<ge> 0
                  \<and> sharedmem_tab team_data (unitid gptr) \<ge> 0
          then get_shared_mem env team_data gptr nelem dtype w
          else
            (case resolve_win env team_data gptr of
               None \<Rightarrow> (DART_ERR_INVAL, w)
             | Some (mwin, offs) \<Rightarrow>
                 if team_unitid team_data = unitid gptr then
                   (DART_OK,
                    w\<lparr>trace := trace w @
                       [memcpy (if segid gptr \<noteq> 0 then offs
                                else dart_mempool_localalloc env + offset gptr)
                               (nelem * dart__mpi__datatype_sizeof env dtype)]\<rparr>)
                 else
                   (let nchunks = nelem div MAX_CONTIG_ELEMENTS;
                        remainder = nelem mod MAX_CONTIG_ELEMENTS;
                        rs = (if nchunks > 0
                              then [Request RGET (int_of_size_t nchunks)
                                      (dart__mpi__max_chunk_datatype dtype)
                                      (unitid gptr) offs mwin]
                              else []) @
                             (if remainder > 0
                              then [Request RGET (int_of_size_t remainder)
                                      (dart__mpi__datatype dtype)
                                      (unitid gptr)
                                      (if nchunks > 0 then offs + nchunks * MAX_CONTIG_ELEMENTS
                                       else offs) mwin]
                              else [])
                    in case chunked env (\<lambda>n ty d. MPI_Rget n ty (unitid gptr) d mwin)
                              dtype nelem offs w of
                         (ret, w1) \<Rightarrow>
                           if ret \<noteq> DART_OK then (ret, w1)
                           else (DART_OK, snd (mpi env (MPI_Waitall rs) w1)))))"

subsection \<open>Collective and point-to-point operations\<close>

definition dart_bcast ::
  "dart_env \<Rightarrow> size_t \<Rightarrow> dart_datatype_t \<Rightarrow> int \<Rightarrow> int \<Rightarrow> world \<Rightarrow> dart_ret_t \<times> world" where
  "dart_bcast env nelem dtype root team w =
     (case dart_adapt_teamlist_get env team of
        None \<Rightarrow> (DART_ERR_INVAL, w)
      | Some team_data \<Rightarrow>
          if CHECK_UNITID_RANGE root team_data then (DART_ERR_INVAL, w)
          else chunked env (\<lambda>n ty d. MPI_Bcast n ty root (comm team_data)) dtype nelem 0 w)"

definition dart_scatter ::
  "dart_env \<Rightarrow> size_t \<Rightarrow> dart_datatype_t \<Rightarrow> int \<Rightarrow> int \<Rightarrow> world \<Rightarrow> dart_ret_t \<times> world" where
  "dart_scatter env nelem dtype root team w =
     (case dart_adapt_teamlist_get env team of
        None \<Rightarrow> (DART_ERR_INVAL, w)
      | Some team_data \<Rightarrow>
          if CHECK_UNITID_RANGE root team_data then (DART_ERR_INVAL, w)
          else chunked env (\<lambda>n ty d. MPI_Scatter n ty root (comm team_data)) dtype nelem 0 w)"

definition dart_gather ::
  "dart_env \<Rightarrow> size_t \<Rightarrow> dart_datatype_t \<Rightarrow> int \<Rightarrow> int \<Rightarrow> world \<Rightarrow> dart_ret_t \<times> world" where
  "dart_gather env nelem dtype root team w =
     (case dart_adapt_teamlist_get env team of
        None \<Rightarrow> (DART_ERR_INVAL, w)
      | Some team_data \<Rightarrow>
          if CHECK_UNITID_RANGE root team_data then (DART_ERR_INVAL, w)
          else chunked env (\<lambda>n ty d. MPI_Gather n ty root (comm team_data)) dtype nelem 0 w)"

text \<open>\<open>dart_allreduce\<close> and \<open>dart_reduce\<close> refuse more than \<open>MAX_CONTIG_ELEMENTS\<close>
  elements before anything else and make one transport call.\<close>

definition dart_allreduce ::
  "dart_env \<Rightarrow> size_t \<Rightarrow> dart_datatype_t \<Rightarrow> dart_operation_t \<Rightarrow> int \<Rightarrow> world \<Rightarrow>
   dart_ret_t \<times> world" where
  "dart_allreduce env nelem dtype op team w =
     (if nelem > MAX_CONTIG_ELEMENTS then (DART_ERR_INVAL, w)
      else
        (case dart_adapt_teamlist_get env team of
           None \<Rightarrow> (DART_ERR_INVAL, w)
         | Some team_data \<Rightarrow>
             (case mpi env (MPI_Allreduce nelem (dart__mpi__datatype dtype) op
                              (comm team_data)) w of
                (ok, w1) \<Rightarrow> (if ok then DART_OK else DART_ERR_INVAL, w1))))"

definition dart_reduce ::
  "dart_env \<Rightarrow> size_t \<Rightarrow> dart_datatype_t \<Rightarrow> dart_operation_t \<Rightarrow> int \<Rightarrow> int \<Rightarrow> world \<Rightarrow>
   dart_ret_t \<times> world" where
  "dart_reduce env nelem dtype op root team w =
     (if nelem > MAX_CONTIG_ELEMENTS then (DART_ERR_INVAL, w)
      else
        (case dart_adapt_teamlist_get env team of
           None \<Rightarrow> (DART_ERR_INVAL, w)
         | Some team_data \<Rightarrow>
             if CHECK_UNITID_RANGE root team_data then (DART_ERR_INVAL, w)
             else
               (case mpi env (MPI_Reduce nelem (dart__mpi__datatype dtype) op root
                                (comm team_data)) w of
                  (ok, w1) \<Rightarrow> (if ok then DART_OK else DART_ERR_INVAL, w1))))"

text \<open>\<open>dart_send\<close>, \<open>dart_recv\<close> and \<open>dart_sendrecv\<close> work on the team \<open>DART_TEAM_ALL\<close>.\<close>

definition dart_send ::
  "dart_env \<Rightarrow> size_t \<Rightarrow> dart_datatype_t \<Rightarrow> int \<Rightarrow> int \<Rightarrow> world \<Rightarrow> dart_ret_t \<times> world" where
  "dart_send env nelem dtype tag unit w =
     (if nelem > MAX_CONTIG_ELEMENTS then (DART_ERR_INVAL, w)
      else
        (case dart_adapt_teamlist_get env (DART_TEAM_ALL env) of
           None \<Rightarrow> (DART_ERR_INVAL, w)
         | Some team_data \<Rightarrow>
             if CHECK_UNITID_RANGE unit team_data then (DART_ERR_INVAL, w)
             else
               (case mpi env (MPI_Send nelem (dart__mpi__datatype dtype) unit tag
                                (comm team_data)) w of
                  (ok, w1) \<Rightarrow> (if ok then DART_OK else DART_ERR_INVAL, w1))))"

definition dart_recv ::
  "dart_env \<Rightarrow> size_t \<Rightarrow> dart_datatype_t \<Rightarrow> int \<Rightarrow> int \<Rightarrow> world \<Rightarrow> dart_ret_t \<times> world" where
  "dart_recv env nelem dtype tag unit w =
     (if nelem > MAX_CONTIG_ELEMENTS then (DART_ERR_INVAL, w)
      else
        (case dart_adapt_teamlist_get env (DART_TEAM_ALL env) of
           None \<Rightarrow> (DART_ERR_INVAL, w)
         | Some team_data \<Rightarrow>
             if CHECK_UNITID_RANGE unit team_data then (DART_ERR_INVAL, w)
             else
               (case mpi env (MPI_Recv nelem (dart__mpi__datatype dtype) unit tag
                                (comm team_data)) w of
                  (ok, w1) \<Rightarrow> (if ok then DART_OK else DART_ERR_INVAL, w1))))"

definition dart_sendrecv ::
  "dart_env \<Rightarrow> size_t \<Rightarrow> dart_datatype_t \<Rightarrow> int \<Rightarrow> int \<Rightarrow> size_t \<Rightarrow> dart_datatype_t \<Rightarrow> int \<Rightarrow>
   int \<Rightarrow> world \<Rightarrow> dart_ret_t \<times> world" where
  "dart_sendrecv env send_nelem send_dtype send_tag dst recv_nelem recv_dtype recv_tag src w =
     (if send_nelem > MAX_CONTIG_ELEMENTS \<or> recv_nelem > MAX_CONTIG_ELEMENTS
      then (DART_ERR_INVAL, w)
      else
        (case dart_adapt_teamlist_get env (DART_TEAM_ALL env) of
           None \<Rightarrow> (DART_ERR_INVAL, w)
         | Some team_data \<Rightarrow>
             if CHECK_UNITID_RANGE dst team_data then (DART_ERR_INVAL, w)
             else if CHECK_UNITID_RANGE src team_data then (DART_ERR_INVAL, w)
             else
               (case mpi env (MPI_Sendrecv send_nelem (dart__mpi__datatype send_dtype) dst
                                send_tag recv_nelem (dart__mpi__datatype recv_dtype) src
                                recv_tag (comm team_data)) w of
                  (ok, w1) \<Rightarrow> (if ok then DART_OK else DART_ERR_INVAL, w1))))"

section \<open>The subset barrier (\<open>dash::co_array::sync_images\<close>)\<close>

text \<open>
  \<open>image_ids\<close> is the container of unit ids, in its iteration order; an iterator is a
  position in it. The root is \<open>*(std::min(image_ids.begin(), image_ids.end()))\<close>:
  \<open>std::min\<close> is applied to the two iterators, so it compares positions, and the
  element read is the one at the smaller position. The results of \<open>dart_send\<close> and
  \<open>dart_recv\<close> are not tested. The tag is 10016.
\<close>

definition sync_images :: "dart_env \<Rightarrow> int \<Rightarrow> int list \<Rightarrow> world \<Rightarrow> world" where
  "sync_images env myid image_ids w =
     (if myid \<notin> set image_ids then w
      else
        (let root = image_ids ! (min 0 (length image_ids));
             tag = 10016;
             w1 = (if myid = root then
                     foldl (\<lambda>v el. if el \<noteq> root
                                    then snd (dart_recv env 1 (DART_TYPE_BYTE env) tag el v)
                                    else v) w image_ids
                   else snd (dart_send env 1 (DART_TYPE_BYTE env) tag root w))
         in if myid = root then
              foldl (\<lambda>v el. if el \<noteq> root
                             then snd (dart_send env 1 (DART_TYPE_BYTE env) tag el v)
                             else v) w1 image_ids
            else snd (dart_recv env 1 (DART_TYPE_BYTE env) tag root w1)))"

section \<open>The locality tree (locality.c)\<close>

text \<open>
  A locality domain, as far as the functions below read and write it: tag, scope, level,
  relative index, node and unit counts, unit ids and the child vector (\<open>num_domains\<close> is
  its length). A node is identified by its position, the list of child indices that
  leads to it from the root; the parent pointer is that position without its last
  index.
\<close>

datatype dart_locality_scope_t =
    DART_LOCALITY_SCOPE_UNDEFINED
  | DART_LOCALITY_SCOPE_GLOBAL
  | DART_LOCALITY_SCOPE_GROUP
  | DART_LOCALITY_SCOPE_NODE
  | DART_LOCALITY_SCOPE_MODULE
  | DART_LOCALITY_SCOPE_NUMA
  | DART_LOCALITY_SCOPE_CORE

datatype dart_domain_locality_t =
  dart_domain (domain_tag: string) (scope: dart_locality_scope_t) (level: int)
    (relative_index: int) (num_nodes: int) (num_units: int) (unit_ids: "int list")
    (domains: "dart_domain_locality_t list")

definition num_domains :: "dart_domain_locality_t \<Rightarrow> int" where
  "num_domains d = int (length (domains d))"

fun domain_at_path :: "dart_domain_locality_t \<Rightarrow> nat list \<Rightarrow> dart_domain_locality_t option" where
  "domain_at_path d [] = Some d"
| "domain_at_path d (i # p) =
     (if i < length (domains d) then domain_at_path (domains d ! i) p else None)"

subsection \<open>Looking a tag up: \<open>dart__base__locality__domain\<close>\<close>

text \<open>
  A C string is the list of its characters before the terminating NUL, a pointer into
  it the rest of the string from there. \<open>strtol\<close> in base 10 skips white space, reads a
  sign and the digits, clamps to the range of \<open>long\<close> (64 bits), and leaves the end
  pointer at its argument when there is no digit.
\<close>

fun strchr :: "string \<Rightarrow> char \<Rightarrow> string option" where
  "strchr [] c = None"
| "strchr (x # xs) c = (if x = c then Some (x # xs) else strchr xs c)"

definition isspace :: "char \<Rightarrow> bool" where
  "isspace c = (c = CHR '' '' \<or> (9 :: nat) \<le> of_char c \<and> of_char c \<le> (13 :: nat))"

definition isdigit :: "char \<Rightarrow> bool" where
  "isdigit c = ((48 :: nat) \<le> of_char c \<and> of_char c \<le> (57 :: nat))"

definition decimal_value :: "string \<Rightarrow> int" where
  "decimal_value ds = foldl (\<lambda>a c. 10 * a + (of_char c - 48)) 0 ds"

definition LONG_MAX :: int where
  "LONG_MAX = 9223372036854775807"

definition strtol :: "string \<Rightarrow> int \<times> string" where
  "strtol nptr =
     (let t = dropWhile isspace nptr;
          neg = (t \<noteq> [] \<and> hd t = CHR ''-'');
          u = (if t \<noteq> [] \<and> (hd t = CHR ''-'' \<or> hd t = CHR ''+'') then tl t else t);
          ds = takeWhile isdigit u;
          v = (if neg then - decimal_value ds else decimal_value ds)
      in if ds = [] then (0, nptr)
         else (max (- LONG_MAX - 1) (min LONG_MAX v), dropWhile isdigit u))"

lemma strtol_end_length: "length (snd (strtol s)) \<le> length s"
proof -
  have a: "length (dropWhile P xs) \<le> length xs" for P and xs :: string
    by (induction xs) auto
  have b: "length (tl xs) \<le> length xs" for xs :: string
    by (cases xs) auto
  show ?thesis
    unfolding strtol_def Let_def
    by (auto intro: order_trans [OF a] order_trans [OF a order_trans [OF b a]])
qed

text \<open>
  The loop of \<open>dart__base__locality__domain\<close>: \<open>dot_begin\<close> points at the separator in
  front of the next tag part. The loop ends when \<open>*dot_begin\<close> or \<open>*part_begin\<close> is NUL.
  The part is converted to \<open>int\<close> (\<open>signed_take_bit 31\<close>); an index at or beyond
  \<open>num_domains\<close> gives \<open>DART_ERR_NOTFOUND\<close>; a negative index is not tested by the source
  and reads before the child vector, which is undefined (\<open>None\<close>). \<open>domain_in\<close> is a
  domain, so the NULL test inside the loop never fires. The result is the return code
  and the position of \<open>*domain_out\<close>.
\<close>

function domain_walk ::
  "dart_domain_locality_t \<Rightarrow> nat list \<Rightarrow> string \<Rightarrow> (dart_ret_t \<times> nat list option) option" where
  "domain_walk domain path dot_begin =
     (if dot_begin = [] \<or> tl dot_begin = [] then Some (DART_OK, Some path)
      else
        (let part_begin = tl dot_begin;
             tag_part = fst (strtol part_begin);
             dot_end = snd (strtol part_begin);
             subdomain_idx = signed_take_bit 31 tag_part
         in if num_domains domain \<le> subdomain_idx then Some (DART_ERR_NOTFOUND, None)
            else if subdomain_idx < 0 then None
            else domain_walk (domains domain ! nat subdomain_idx)
                   (path @ [nat subdomain_idx]) dot_end))"
  by pat_completeness auto
termination
proof (relation "measure (\<lambda>(d, p, s). length s)")
  show "wf (measure (\<lambda>(d, p, s). length s))" by simp
next
  fix domain :: dart_domain_locality_t and path :: "nat list" and dot_begin :: string
    and x xa xb xc
  assume "\<not> (dot_begin = [] \<or> tl dot_begin = [])" and "x = tl dot_begin"
    and "xb = snd (strtol x)"
  then have "length xb < length dot_begin"
    using strtol_end_length [of "tl dot_begin"] by (cases dot_begin) auto
  then show "((domains domain ! nat xc, path @ [nat xc], xb), domain, path, dot_begin)
        \<in> measure (\<lambda>(d, p, s). length s)"
    by simp
qed

declare domain_walk.simps [simp del]

definition dart__base__locality__domain ::
  "dart_domain_locality_t \<Rightarrow> string \<Rightarrow> (dart_ret_t \<times> nat list option) option" where
  "dart__base__locality__domain domain_in tag =
     (case strchr tag CHR ''.'' of
        None \<Rightarrow> Some (DART_OK, Some [])
      | Some dot_begin \<Rightarrow> domain_walk domain_in [] dot_begin)"

subsection \<open>Collecting and splitting: \<open>scope_domains\<close> and \<open>domain_split_tags\<close>\<close>

text \<open>
  \<open>dart__base__locality__scope_domains_rec\<close> appends the tag of a domain of the scope
  asked for and otherwise recurses into the children, stopping at the first child
  whose call does not return \<open>DART_OK\<close>; it returns \<open>DART_ERR_NOTFOUND\<close> while nothing has
  been collected. Allocation always succeeds here.

  The source copies a tag with \<open>strncpy(dst, tag, DART_LOCALITY_DOMAIN_TAG_MAX_SIZE)\<close>
  into a block of \<open>strlen(tag) + 1\<close> bytes, here and in \<open>domain_split_tags\<close>. \<open>strncpy\<close>
  pads the destination with zero bytes up to the bound, so the call writes past the
  end of the block for every tag shorter than the bound minus one: undefined behaviour
  in C. The lists below hold the strings that are read back from those blocks, that
  is, the values the source computes where the overrun does no harm; the overrun
  itself is not represented.
\<close>

fun scope_domains_rec ::
  "dart_locality_scope_t \<Rightarrow> dart_domain_locality_t \<Rightarrow> string list \<Rightarrow> dart_ret_t \<times> string list"
and scope_domains_children ::
  "dart_locality_scope_t \<Rightarrow> dart_domain_locality_t list \<Rightarrow> string list \<Rightarrow>
   dart_ret_t \<times> string list" where
  "scope_domains_rec sc (dart_domain tag dsc lv ri nn nu us ds) tags =
     (if dsc = sc then
        (if length (tags @ [tag]) \<le> 0 then DART_ERR_NOTFOUND else DART_OK, tags @ [tag])
      else
        (case scope_domains_children sc ds tags of
           (ret, tags') \<Rightarrow>
             if ret \<noteq> DART_OK then (ret, tags')
             else (if length tags' \<le> 0 then DART_ERR_NOTFOUND else DART_OK, tags')))"
| "scope_domains_children sc [] tags = (DART_OK, tags)"
| "scope_domains_children sc (d # ds) tags =
     (case scope_domains_rec sc d tags of
        (ret, tags') \<Rightarrow>
          if ret \<noteq> DART_OK then (ret, tags') else scope_domains_children sc ds tags')"

definition dart__base__locality__scope_domains ::
  "dart_domain_locality_t \<Rightarrow> dart_locality_scope_t \<Rightarrow> dart_ret_t \<times> string list" where
  "dart__base__locality__scope_domains domain_in sc = scope_domains_rec sc domain_in []"

text \<open>
  The loop of \<open>dart__base__locality__domain_split_tags\<close> over the groups \<open>g\<close>, with the
  running \<open>group_first_domain_idx\<close>: the size of group \<open>g\<close> and the tags copied into it.
  Reading \<open>domain_tags\<close> outside its bounds is undefined (\<open>None\<close>). The function asserts
  that \<open>scope_domains\<close> returned \<open>DART_OK\<close> and divides by \<open>num_parts\<close>; a failed
  assertion and a division by zero are \<open>None\<close> as well. C's integer division truncates
  (\<open>sdiv\<close>). Integers are unbounded here: the counts of a locality tree are far from
  the limits of \<open>int\<close>.
\<close>

fun split_groups ::
  "string list \<Rightarrow> int \<Rightarrow> int \<Rightarrow> int list \<Rightarrow> (int list \<times> string list list) option" where
  "split_groups domain_tags max_group_domains group_first_domain_idx [] = Some ([], [])"
| "split_groups domain_tags max_group_domains group_first_domain_idx (g # gs) =
     (let n_domains = int (length domain_tags);
          num_group_subdomains =
            (if (g + 1) * max_group_domains > n_domains
             then (g * max_group_domains) - n_domains
             else max_group_domains)
      in if num_group_subdomains > 0 \<and>
            (group_first_domain_idx < 0 \<or>
             group_first_domain_idx + num_group_subdomains > n_domains)
         then None
         else
           (case split_groups domain_tags max_group_domains
                   (group_first_domain_idx + num_group_subdomains) gs of
              None \<Rightarrow> None
            | Some (sizes, groups) \<Rightarrow>
                Some (num_group_subdomains # sizes,
                      take (nat num_group_subdomains)
                        (drop (nat group_first_domain_idx) domain_tags) # groups)))"

definition dart__base__locality__domain_split_tags ::
  "dart_domain_locality_t \<Rightarrow> dart_locality_scope_t \<Rightarrow> int \<Rightarrow>
   (dart_ret_t \<times> int list \<times> string list list) option" where
  "dart__base__locality__domain_split_tags domain_in sc num_parts =
     (case dart__base__locality__scope_domains domain_in sc of
        (ret, domain_tags) \<Rightarrow>
          if ret \<noteq> DART_OK then None
          else if num_parts = 0 then None
          else
            (let n_domains = int (length domain_tags);
                 max_group_domains = (n_domains + (num_parts - 1)) sdiv num_parts
             in case split_groups domain_tags max_group_domains 0 [0 .. num_parts - 1] of
                  None \<Rightarrow> None
                | Some (group_sizes, group_domain_tags) \<Rightarrow>
                    Some (DART_OK, group_sizes, group_domain_tags)))"

subsection \<open>Grouping immediate children: \<open>dart__base__locality__group_subdomains\<close>\<close>

text \<open>\<open>sprintf\<close> with \<open>%d\<close>.\<close>

fun decimal_digits :: "nat \<Rightarrow> string" where
  "decimal_digits n =
     (if n < 10 then [char_of (48 + n)]
      else decimal_digits (n div 10) @ [char_of (48 + n mod 10)])"

declare decimal_digits.simps [simp del]

definition sprintf_d :: "int \<Rightarrow> string" where
  "sprintf_d i = (if i < 0 then CHR ''-'' # decimal_digits (nat (- i)) else decimal_digits (nat i))"

text \<open>
  The single pass that copies the children into the three partitions: existing group
  domains, grouped domains (the tag equals the next sorted tag, at \<open>sdt\<close>) and ungrouped
  domains. The last component is what is left of the sorted tags; the source returns
  \<open>DART_ERR_NOTFOUND\<close> when it is not empty (\<open>sdt != num_group_subdomain_tags\<close>). In that
  case the source has already written more than \<open>num_ungrouped\<close> entries to its
  temporary vector; the model gives the return code and the unchanged domain.
\<close>

fun partition_subdomains ::
  "string list \<Rightarrow> dart_domain_locality_t list \<Rightarrow>
   dart_domain_locality_t list \<times> dart_domain_locality_t list \<times> dart_domain_locality_t list
   \<times> string list" where
  "partition_subdomains tags [] = ([], [], [], tags)"
| "partition_subdomains tags (subdom # rest) =
     (if scope subdom = DART_LOCALITY_SCOPE_GROUP then
        (case partition_subdomains tags rest of
           (gs, ss, us, t) \<Rightarrow> (subdom # gs, ss, us, t))
      else if tags \<noteq> [] \<and> domain_tag subdom = hd tags then
        (case partition_subdomains (tl tags) rest of
           (gs, ss, us, t) \<Rightarrow> (gs, subdom # ss, us, t))
      else
        (case partition_subdomains tags rest of
           (gs, ss, us, t) \<Rightarrow> (gs, ss, subdom # us, t)))"

fun set_relative_index :: "int \<Rightarrow> dart_domain_locality_t \<Rightarrow> dart_domain_locality_t" where
  "set_relative_index i (dart_domain tag sc lv ri nn nu us ds) = dart_domain tag sc lv i nn nu us ds"

fun regroup_child ::
  "string \<Rightarrow> int \<Rightarrow> int \<Rightarrow> dart_domain_locality_t \<Rightarrow> dart_domain_locality_t" where
  "regroup_child group_tag group_level gd (dart_domain tag sc lv ri nn nu us ds) =
     dart_domain (group_tag @ ''.'' @ sprintf_d gd) sc (group_level + 1) gd nn nu us ds"

definition indexed :: "int \<Rightarrow> 'a list \<Rightarrow> (int \<times> 'a) list" where
  "indexed start xs = zip (map (\<lambda>i. start + int i) [0 ..< length xs]) xs"

text \<open>
  The new child vector is written in three steps: the group domain at index
  \<open>group_domain_rel_idx = num_existing_domain_groups\<close> with the grouped domains as its
  children (tag, relative index and level rewritten), the existing group domains at
  the indices before it, the ungrouped domains at \<open>sd + num_existing_domain_groups + 1\<close>.
  Of the existing groups and the ungrouped domains only \<open>parent\<close> and
  \<open>relative_index\<close> are written. \<open>dart__base__locality__domain__init\<close> is defined
  elsewhere in the runtime; every field of the model is assigned after the call.
\<close>

definition dart__base__locality__group_subdomains ::
  "dart_domain_locality_t \<Rightarrow> string list \<Rightarrow> dart_ret_t \<times> dart_domain_locality_t" where
  "dart__base__locality__group_subdomains domain group_subdomain_tags =
     (let group_subdomain_tags_sorted = sort group_subdomain_tags;
          num_existing_domain_groups =
            int (length (filter (\<lambda>d. scope d = DART_LOCALITY_SCOPE_GROUP) (domains domain)))
      in case partition_subdomains group_subdomain_tags_sorted (domains domain) of
           (group_domains, grouped_domains, ungrouped_domains, unmatched) \<Rightarrow>
             if unmatched \<noteq> [] then (DART_ERR_NOTFOUND, domain)
             else
               (let group_domain_rel_idx = num_existing_domain_groups;
                    group_tag = domain_tag domain @ ''.'' @ sprintf_d group_domain_rel_idx;
                    group_level = level domain + 1;
                    group_children =
                      map (\<lambda>(gd, d). regroup_child group_tag group_level gd d)
                        (indexed 0 grouped_domains);
                    group_domain =
                      dart_domain group_tag DART_LOCALITY_SCOPE_GROUP group_level group_domain_rel_idx
                        (sum_list (map num_nodes group_children))
                        (sum_list (map num_units group_children))
                        (concat (map (\<lambda>d. take (nat (num_units d)) (unit_ids d)) group_children))
                        group_children
                in (DART_OK,
                    dart_domain (domain_tag domain) (scope domain) (level domain)
                      (relative_index domain) (num_nodes domain) (num_units domain)
                      (unit_ids domain)
                      (map (\<lambda>(g, d). set_relative_index g d) (indexed 0 group_domains)
                       @ [group_domain]
                       @ map (\<lambda>(sd, d). set_relative_index sd d)
                           (indexed (num_existing_domain_groups + 1) ungrouped_domains)))))"

section \<open>A concrete configuration\<close>

text \<open>
  A team of four units on which the calling unit is unit 0, no unit is co-located, every
  segment is bound at displacement 0, every transport call succeeds and a test of
  pending requests reports them unfinished.
\<close>

definition team0 :: dart_team_data_t where
  "team0 =
     \<lparr>team_size = 4, team_unitid = 0, window = 7, comm = 9,
      sharedmem_tab = (\<lambda>u. - 1),
      dart_segment_get_disp = (\<lambda>s u. Some 0),
      dart_segment_get_baseptr = (\<lambda>s u. Some 0)\<rparr>"

definition env0 :: dart_env where
  "env0 =
     \<lparr>dart_adapt_teamlist_get = (\<lambda>t. if t = 0 then Some team0 else None),
      dart_win_local_alloc = 3,
      dart_mempool_localalloc = 0,
      dart_sharedmem_local_baseptr_set = (\<lambda>u. 0),
      dart__mpi__datatype_sizeof = (\<lambda>t. 1),
      DART_TYPE_BYTE = 1,
      DART_TYPE_LONGLONG = 7,
      DART_TEAM_ALL = 0,
      shared_windows = True,
      mpi_success = (\<lambda>tr c. True),
      testall_flag = (\<lambda>tr rs. False)\<rparr>"

definition world0 :: world where
  "world0 = \<lparr>trace = [], heap = []\<rparr>"

text \<open>Variations: a team whose units are all co-located, a transport whose calls
  fail after the first, global pointers to unit 1 and to unit 4, and worlds that hold
  one handle.\<close>

definition team1 :: dart_team_data_t where
  "team1 = team0\<lparr>sharedmem_tab := (\<lambda>u. u)\<rparr>"

definition env1 :: dart_env where
  "env1 = env0\<lparr>dart_adapt_teamlist_get := (\<lambda>t. if t = 0 then Some team1 else None)\<rparr>"

definition env2 :: dart_env where
  "env2 = env0\<lparr>mpi_success := (\<lambda>tr c. tr = [])\<rparr>"

definition gptr1 :: dart_gptr_t where
  "gptr1 = \<lparr>unitid = 1, segid = 0, teamid = 0, offset = 16\<rparr>"

definition gptr4 :: dart_gptr_t where
  "gptr4 = \<lparr>unitid = 4, segid = 0, teamid = 0, offset = 16\<rparr>"

definition world_pending :: world where
  "world_pending =
     \<lparr>trace = [MPI_Rget 5 (dart__mpi__datatype 1) 1 16 3],
      heap = [(1, \<lparr>dest = 1, win = 3, needs_flush = False,
                   reqs = [Request RGET 5 (dart__mpi__datatype 1) 1 16 3]\<rparr>)]\<rparr>"

definition world_empty_handle :: world where
  "world_empty_handle =
     \<lparr>trace = [], heap = [(1, \<lparr>dest = 1, win = 3, needs_flush = True, reqs = []\<rparr>)]\<rparr>"

definition world_two_requests :: world where
  "world_two_requests =
     \<lparr>trace = [MPI_Rget 1 (dart__mpi__max_chunk_datatype 1) 1 16 3,
               MPI_Rget 5 (dart__mpi__datatype 1) 1 2147483663 3],
      heap = [(1, \<lparr>dest = 1, win = 3, needs_flush = False,
                   reqs = [Request RGET 1 (dart__mpi__max_chunk_datatype 1) 1 16 3,
                           Request RGET 5 (dart__mpi__datatype 1) 1 2147483663 3]\<rparr>)]\<rparr>"

definition world_put_request :: world where
  "world_put_request =
     \<lparr>trace = [MPI_Rput 5 (dart__mpi__datatype 1) 1 16 3],
      heap = [(1, \<lparr>dest = 1, win = 3, needs_flush = True,
                   reqs = [Request RPUT 5 (dart__mpi__datatype 1) 1 16 3]\<rparr>)]\<rparr>"

text \<open>
  A locality tree: the global domain with one node, and three NUMA domains of two units
  each below the node. \<open>node0_grouped\<close> and \<open>root0_grouped\<close> are the node and the tree
  after the NUMA domain \<open>.0.1\<close> has been grouped.
\<close>

definition leaf :: "string \<Rightarrow> dart_locality_scope_t \<Rightarrow> int \<Rightarrow> int \<Rightarrow> int list \<Rightarrow> dart_domain_locality_t" where
  "leaf tag sc lv ri us = dart_domain tag sc lv ri 1 (int (length us)) us []"

definition node0 :: dart_domain_locality_t where
  "node0 = dart_domain ''.0'' DART_LOCALITY_SCOPE_NODE 1 0 1 6 [0, 1, 2, 3, 4, 5]
     [leaf ''.0.0'' DART_LOCALITY_SCOPE_NUMA 2 0 [0, 1],
      leaf ''.0.1'' DART_LOCALITY_SCOPE_NUMA 2 1 [2, 3],
      leaf ''.0.2'' DART_LOCALITY_SCOPE_NUMA 2 2 [4, 5]]"

definition root0 :: dart_domain_locality_t where
  "root0 = dart_domain ''.'' DART_LOCALITY_SCOPE_GLOBAL 0 0 1 6 [0, 1, 2, 3, 4, 5] [node0]"

definition node0_grouped :: dart_domain_locality_t where
  "node0_grouped =
     dart_domain ''.0'' DART_LOCALITY_SCOPE_NODE 1 0 1 6 [0, 1, 2, 3, 4, 5]
       [dart_domain ''.0.0'' DART_LOCALITY_SCOPE_GROUP 2 0 1 2 [2, 3]
          [dart_domain ''.0.0.0'' DART_LOCALITY_SCOPE_NUMA 3 0 1 2 [2, 3] []],
        dart_domain ''.0.0'' DART_LOCALITY_SCOPE_NUMA 2 1 1 2 [0, 1] [],
        dart_domain ''.0.2'' DART_LOCALITY_SCOPE_NUMA 2 2 1 2 [4, 5] []]"

definition root0_grouped :: dart_domain_locality_t where
  "root0_grouped =
     dart_domain ''.'' DART_LOCALITY_SCOPE_GLOBAL 0 0 1 6 [0, 1, 2, 3, 4, 5] [node0_grouped]"

text \<open>A tree of two nodes with four units each.\<close>

definition root_two_nodes :: dart_domain_locality_t where
  "root_two_nodes =
     dart_domain ''.'' DART_LOCALITY_SCOPE_GLOBAL 0 0 2 8 [0, 1, 2, 3, 4, 5, 6, 7]
       [leaf ''.0'' DART_LOCALITY_SCOPE_NODE 1 0 [0, 1, 2, 3],
        leaf ''.1'' DART_LOCALITY_SCOPE_NODE 1 1 [4, 5, 6, 7]]"

text \<open>
  The tag of the domain at a position, as the tree is built: \<open>.\<close> for the root, and
  the indices of the position, each after a dot, for every other domain.
\<close>

definition path_tag :: "nat list \<Rightarrow> string" where
  "path_tag p = (if p = [] then ''.'' else concat (map (\<lambda>i. CHR ''.'' # decimal_digits i) p))"

section \<open>Notions the properties are stated with\<close>

text \<open>
  The chunking plan of a transfer of \<open>nelem\<close> elements, in the specification's words:
  one transfer of \<open>nchunks = nelem / CHUNK\<close> chunk-typed elements when \<open>nchunks > 0\<close>,
  then one of \<open>remainder = nelem % CHUNK\<close> base elements when \<open>remainder > 0\<close>.
  \<open>request_transfer\<close> reads from a request what it transfers (kind, count as passed to
  the transport, datatype);
  \<open>shared_mem_fast_path\<close> is the condition under which \<open>dart_get_handle\<close> takes the
  shared-memory copy.
\<close>

definition chunking_plan :: "size_t \<Rightarrow> dart_datatype_t \<Rightarrow> (size_t \<times> MPI_Datatype) list" where
  "chunking_plan nelem dtype =
     (let nchunks = nelem div MAX_CONTIG_ELEMENTS;
          remainder = nelem mod MAX_CONTIG_ELEMENTS
      in (if nchunks > 0 then [(nchunks, dart__mpi__max_chunk_datatype dtype)] else []) @
         (if remainder > 0 then [(remainder, dart__mpi__datatype dtype)] else []))"

text \<open>
  The element count from which \<open>nchunks = nelem / MAX_CONTIG_ELEMENTS\<close> no longer fits
  the transport's \<open>int\<close>: \<open>2^31 * (2^31 - 1)\<close>.
\<close>

definition chunked_transfer_limit :: size_t where
  "chunked_transfer_limit = 4611686016279904256"

fun request_transfer :: "MPI_Request \<Rightarrow> (rma_kind \<times> int \<times> MPI_Datatype) option" where
  "request_transfer MPI_REQUEST_NULL = None"
| "request_transfer (Request k n ty t d wn) = Some (k, n, ty)"

definition shared_mem_fast_path :: "dart_env \<Rightarrow> dart_gptr_t \<Rightarrow> bool" where
  "shared_mem_fast_path env gptr =
     (case dart_adapt_teamlist_get env (teamid gptr) of
        None \<Rightarrow> False
      | Some team_data \<Rightarrow>
          \<not> CHECK_UNITID_RANGE (unitid gptr) team_data \<and> shared_windows env
          \<and> segid gptr \<ge> 0 \<and> sharedmem_tab team_data (unitid gptr) \<ge> 0)"

text \<open>A handle variable is freed in a world when it is NULL or names no live struct.\<close>

definition freed :: "world \<Rightarrow> dart_handle_t \<Rightarrow> bool" where
  "freed w h = (case h of None \<Rightarrow> True | Some a \<Rightarrow> live w a = None)"

section \<open>Properties of the communication layer\<close>

subsection \<open>The heap of handles\<close>

lemma fold_max_ge: "(a::nat) \<le> fold max xs a"
  by (induction xs arbitrary: a) (auto intro: order_trans [OF max.cobounded2])

lemma fold_max_mem: "(x::nat) \<in> set xs \<Longrightarrow> x \<le> fold max xs a"
proof (induction xs arbitrary: a)
  case Nil
  then show ?case by simp
next
  case (Cons y ys)
  show ?case
  proof (cases "x = y")
    case True
    have "y \<le> max y a" by simp
    also have "\<dots> \<le> fold max ys (max y a)" by (rule fold_max_ge)
    finally show ?thesis using True by simp
  next
    case False
    with Cons show ?thesis by simp
  qed
qed

lemma fresh_addr_notin: "fresh_addr h \<notin> fst ` set h"
proof
  assume "fresh_addr h \<in> fst ` set h"
  then have "fresh_addr h \<in> set (map fst h)" by simp
  then have "fresh_addr h \<le> fold max (map fst h) 0" by (rule fold_max_mem)
  then show False by (simp add: fresh_addr_def)
qed

lemma calloc_free: "calloc s w = (a, w0) \<Longrightarrow> heap (free a w0) = heap w"
proof -
  have "filter (\<lambda>p. fst p \<noteq> b) (h @ [(b, s)]) = h" if "b \<notin> fst ` set h" for b and h :: "(nat \<times> dart_handle_struct) list"
    using that by (induction h) auto
  then show "calloc s w = (a, w0) \<Longrightarrow> heap (free a w0) = heap w"
    using fresh_addr_notin [of "heap w"] by (auto simp: calloc_def free_def)
qed

lemma calloc_live: "calloc s w = (a, w0) \<Longrightarrow> live w0 a = Some s"
proof -
  have "map_of (h @ [(b, s)]) b = Some s" if "b \<notin> fst ` set h" for b and h :: "(nat \<times> dart_handle_struct) list"
    using that by (induction h) auto
  then show "calloc s w = (a, w0) \<Longrightarrow> live w0 a = Some s"
    using fresh_addr_notin [of "heap w"] by (auto simp: calloc_def live_def)
qed

lemma free_add_req: "heap (free a (add_req a r w)) = heap (free a w)"
proof -
  have "filter (\<lambda>p. fst p \<noteq> a)
          (map (\<lambda>p. if fst p = a then (a, (snd p)\<lparr>reqs := reqs (snd p) @ [r]\<rparr>) else p) h)
        = filter (\<lambda>p. fst p \<noteq> a) h" for h :: "(nat \<times> dart_handle_struct) list"
    by (induction h) auto
  then show ?thesis by (simp add: free_def add_req_def)
qed

lemma add_req_live:
  "live w a = Some s \<Longrightarrow> live (add_req a r w) a = Some (s\<lparr>reqs := reqs s @ [r]\<rparr>)"
proof -
  have "map_of h a = Some s \<Longrightarrow>
        map_of (map (\<lambda>p. if fst p = a then (a, (snd p)\<lparr>reqs := reqs (snd p) @ [r]\<rparr>) else p) h) a
        = Some (s\<lparr>reqs := reqs s @ [r]\<rparr>)" for h
    by (induction h) (auto split: if_splits)
  then show "live w a = Some s \<Longrightarrow> ?thesis" by (simp add: live_def add_req_def)
qed

lemma issue_request_free:
  "issue_request env k n ty t d wn a w = (ok, w') \<Longrightarrow> heap (free a w') = heap (free a w)"
  by (auto simp: issue_request_def mpi_def free_add_req split: prod.splits)
    (simp_all add: free_def)

lemma issue_request_live:
  "issue_request env k n ty t d wn a w = (ok, w') \<Longrightarrow> live w a = Some s \<Longrightarrow>
   live w' a = Some (s\<lparr>reqs := reqs s @ [Request k n ty t d wn]\<rparr>)"
  by (auto simp: issue_request_def mpi_def split: prod.splits intro!: add_req_live)
    (simp_all add: live_def)

lemma live_free_same: "live (free a w) a = None"
proof -
  have "map_of (filter (\<lambda>p. fst p \<noteq> a) h) a = None"
    for h :: "(nat \<times> dart_handle_struct) list"
    by (induction h) auto
  then show ?thesis by (simp add: live_def free_def)
qed

lemma live_free_other: "live w b = None \<Longrightarrow> live (free a w) b = None"
proof -
  have "map_of h b = None \<Longrightarrow> map_of (filter (\<lambda>p. fst p \<noteq> a) h) b = None"
    for h :: "(nat \<times> dart_handle_struct) list"
    by (induction h) (auto split: if_splits)
  then show "live w b = None \<Longrightarrow> ?thesis" by (simp add: live_def free_def)
qed

lemma free_handles_keeps_dead:
  "free_handles hs w = Some w' \<Longrightarrow> live w b = None \<Longrightarrow> live w' b = None"
proof (induction hs w rule: free_handles.induct)
  case (1 w)
  then show ?case by simp
next
  case (2 hs w)
  then show ?case by simp
next
  case (3 a hs w)
  then show ?case by (auto split: option.splits simp: live_free_other)
qed

lemma free_handles_frees:
  "free_handles hs w = Some w' \<Longrightarrow> list_all (freed w') hs"
proof (induction hs w rule: free_handles.induct)
  case (1 w)
  then show ?case by simp
next
  case (2 hs w)
  then show ?case by (simp add: freed_def)
next
  case (3 a hs w)
  then show ?case
    by (auto simp: freed_def split: option.splits
        intro: free_handles_keeps_dead [OF _ live_free_same])
qed

subsection \<open>Handles of non-blocking transfers\<close>

lemma handle_transfer_error:
  assumes "handle_transfer env k flush target mwin dtype nelem offs w = (ret, hv, w')"
    and "ret \<noteq> DART_OK"
  shows "hv = None \<and> heap w' = heap w"
proof -
  obtain a w0 where c:
    "calloc \<lparr>dest = target, win = mwin, needs_flush = flush, reqs = []\<rparr> w = (a, w0)"
    by fastforce
  note f0 = calloc_free [OF c]
  show ?thesis
    using assms c f0
    by (auto simp: handle_transfer_def Let_def split: prod.splits if_splits
        dest!: issue_request_free)
qed

lemma int_of_size_t_exact: "uint n < 2 ^ 31 \<Longrightarrow> int_of_size_t n = uint n"
proof -
  have "- (2 ^ 31) \<le> uint n" by (rule order_trans [of _ 0]) simp_all
  then show "uint n < 2 ^ 31 \<Longrightarrow> int_of_size_t n = uint n"
    by (simp add: int_of_size_t_def signed_take_bit_int_eq_self_iff)
qed

lemma nchunks_fits_int:
  assumes "nelem < chunked_transfer_limit"
  shows "uint (nelem div MAX_CONTIG_ELEMENTS) < 2 ^ 31"
proof -
  from assms have "uint nelem < 4611686016279904256"
    by (simp add: word_less_def chunked_transfer_limit_def)
  then have "uint nelem div 2147483647 < 2147483648" by simp
  then show ?thesis by (simp add: uint_div MAX_CONTIG_ELEMENTS_def)
qed

lemma remainder_fits_int: "uint (nelem mod MAX_CONTIG_ELEMENTS) < 2 ^ 31"
proof -
  have "uint nelem mod 2147483647 < 2147483647" by simp
  then show ?thesis by (simp add: uint_mod MAX_CONTIG_ELEMENTS_def)
qed

lemma chunking_plan_counts_exact:
  assumes "nelem < chunked_transfer_limit"
  shows "map (\<lambda>(n, ty). Some (k, int_of_size_t n, ty)) (chunking_plan nelem dtype)
         = map (\<lambda>(n, ty). Some (k, uint n, ty)) (chunking_plan nelem dtype)"
  using int_of_size_t_exact [OF nchunks_fits_int [OF assms]]
    int_of_size_t_exact [OF remainder_fits_int [of nelem]]
  by (simp add: chunking_plan_def Let_def)

lemma handle_transfer_ok:
  assumes "handle_transfer env k flush target mwin dtype nelem offs w = (ret, Some a, w')"
  shows "\<exists>h. live w' a = Some h
           \<and> map request_transfer (reqs h)
               = map (\<lambda>(n, ty). Some (k, int_of_size_t n, ty)) (chunking_plan nelem dtype)
           \<and> length (reqs h) \<le> 2 \<and> needs_flush h = flush \<and> dest h = target \<and> win h = mwin"
proof -
  obtain b w0 where c:
    "calloc \<lparr>dest = target, win = mwin, needs_flush = flush, reqs = []\<rparr> w = (b, w0)"
    by fastforce
  note l0 = calloc_live [OF c]
  show ?thesis
    using assms c l0
    by (auto simp: handle_transfer_def Let_def chunking_plan_def
        split: prod.splits if_splits dest!: issue_request_live)
qed

lemma handle_transfer_success_handle:
  "handle_transfer env k flush target mwin dtype nelem offs w = (DART_OK, hv, w') \<Longrightarrow>
   hv \<noteq> None"
  by (auto simp: handle_transfer_def Let_def split: prod.splits if_splits)

lemma get_shared_mem_result:
  "get_shared_mem env td gptr nelem dtype w = (ret, w') \<Longrightarrow>
   heap w' = heap w \<and>
   (ret = DART_OK \<longrightarrow>
      (\<exists>addr. trace w' = trace w @ [memcpy addr (nelem * dart__mpi__datatype_sizeof env dtype)]))"
  by (auto simp: get_shared_mem_def Let_def split: option.splits if_splits)

text \<open>
  Claim C2, as amended. A handle returned by \<open>dart_get_handle\<close> or \<open>dart_put_handle\<close>
  holds exactly the sub-requests of the chunking plan of its operation: one for the
  chunk transfer of \<open>nelem / CHUNK\<close> chunks when that is positive, one for the remainder
  transfer of \<open>nelem % CHUNK\<close> elements when that is positive, in this order and so at
  most two, each with the plan's datatype and with the plan's count converted to the
  transport's \<open>int\<close>; for \<open>nelem < 2^31 * (2^31 - 1)\<close> that is the plan's count itself.
  \<open>needs_flush\<close> is false for \<open>dart_get_handle\<close> and true for \<open>dart_put_handle\<close>. When
  the shared-memory fast path fires in \<open>dart_get_handle\<close>, the handle is NULL, no handle
  has been allocated, and on \<open>DART_OK\<close> the copy of \<open>nelem\<close> elements has been made.
  \<open>dart_put_handle\<close> has no shared-memory fast path: every successful call returns a
  handle that is not NULL.
\<close>

theorem handle_sub_requests_follow_chunking_plan:
  "(dart_get_handle env gptr nelem dtype w = (ret, Some a, w') \<longrightarrow>
      (\<exists>h. live w' a = Some h
          \<and> map request_transfer (reqs h)
              = map (\<lambda>(n, ty). Some (RGET, int_of_size_t n, ty)) (chunking_plan nelem dtype)
          \<and> (nelem < chunked_transfer_limit \<longrightarrow>
               map request_transfer (reqs h)
                 = map (\<lambda>(n, ty). Some (RGET, uint n, ty)) (chunking_plan nelem dtype))
          \<and> length (reqs h) \<le> 2 \<and> \<not> needs_flush h))
   \<and> (dart_put_handle env gptr nelem dtype w = (ret, Some a, w') \<longrightarrow>
      (\<exists>h. live w' a = Some h
          \<and> map request_transfer (reqs h)
              = map (\<lambda>(n, ty). Some (RPUT, int_of_size_t n, ty)) (chunking_plan nelem dtype)
          \<and> (nelem < chunked_transfer_limit \<longrightarrow>
               map request_transfer (reqs h)
                 = map (\<lambda>(n, ty). Some (RPUT, uint n, ty)) (chunking_plan nelem dtype))
          \<and> length (reqs h) \<le> 2 \<and> needs_flush h))
   \<and> (shared_mem_fast_path env gptr \<longrightarrow>
       dart_get_handle env gptr nelem dtype w = (ret, hv, w') \<longrightarrow>
         hv = None \<and> heap w' = heap w \<and>
         (ret = DART_OK \<longrightarrow>
            (\<exists>addr. trace w' = trace w @
                        [memcpy addr (nelem * dart__mpi__datatype_sizeof env dtype)])))
   \<and> (dart_put_handle env gptr nelem dtype w = (DART_OK, hv, w') \<longrightarrow> hv \<noteq> None)"
proof -
  have A: "\<exists>h. live w' a = Some h
          \<and> map request_transfer (reqs h)
              = map (\<lambda>(n, ty). Some (RGET, int_of_size_t n, ty)) (chunking_plan nelem dtype)
          \<and> (nelem < chunked_transfer_limit \<longrightarrow>
               map request_transfer (reqs h)
                 = map (\<lambda>(n, ty). Some (RGET, uint n, ty)) (chunking_plan nelem dtype))
          \<and> length (reqs h) \<le> 2 \<and> \<not> needs_flush h"
    if "dart_get_handle env gptr nelem dtype w = (ret, Some a, w')"
    using that chunking_plan_counts_exact [of nelem RGET dtype]
    by (auto simp: dart_get_handle_def split: option.splits if_splits prod.splits
        dest!: handle_transfer_ok)
  have B: "\<exists>h. live w' a = Some h
          \<and> map request_transfer (reqs h)
              = map (\<lambda>(n, ty). Some (RPUT, int_of_size_t n, ty)) (chunking_plan nelem dtype)
          \<and> (nelem < chunked_transfer_limit \<longrightarrow>
               map request_transfer (reqs h)
                 = map (\<lambda>(n, ty). Some (RPUT, uint n, ty)) (chunking_plan nelem dtype))
          \<and> length (reqs h) \<le> 2 \<and> needs_flush h"
    if "dart_put_handle env gptr nelem dtype w = (ret, Some a, w')"
    using that chunking_plan_counts_exact [of nelem RPUT dtype]
    by (auto simp: dart_put_handle_def split: option.splits if_splits prod.splits
        dest!: handle_transfer_ok)
  have C: "hv = None \<and> heap w' = heap w \<and>
         (ret = DART_OK \<longrightarrow>
            (\<exists>addr. trace w' = trace w @
                        [memcpy addr (nelem * dart__mpi__datatype_sizeof env dtype)]))"
    if fp: "shared_mem_fast_path env gptr"
      and g: "dart_get_handle env gptr nelem dtype w = (ret, hv, w')"
  proof -
    from fp obtain td where td: "dart_adapt_teamlist_get env (teamid gptr) = Some td"
      and c: "\<not> CHECK_UNITID_RANGE (unitid gptr) td" "shared_windows env"
        "segid gptr \<ge> 0" "sharedmem_tab td (unitid gptr) \<ge> 0"
      by (auto simp: shared_mem_fast_path_def split: option.splits)
    from g td c have s: "get_shared_mem env td gptr nelem dtype w = (ret, w')"
      and n: "hv = None"
      by (auto simp: dart_get_handle_def split: prod.splits)
    from get_shared_mem_result [OF s] n show ?thesis by simp
  qed
  have D: "hv \<noteq> None" if "dart_put_handle env gptr nelem dtype w = (DART_OK, hv, w')"
    using that
    by (auto simp: dart_put_handle_def split: option.splits if_splits
        dest: handle_transfer_success_handle)
  from A B C D show ?thesis by blast
qed

text \<open>
  The theorem at work: a read of \<open>2^31 + 4\<close> elements gets a handle with the chunk and
  the remainder request, counted 1 and 5; a write of 5 elements gets a handle with one
  request that needs a flush; a read from a co-located unit is a copy with a NULL
  handle.
\<close>

theorem handle_sub_requests_follow_chunking_plan_witness:
  "dart_get_handle env0 gptr1 2147483652 1 world0 = (DART_OK, Some 1, world_two_requests)
   \<and> (2147483652 :: size_t) < chunked_transfer_limit
   \<and> (\<exists>h. live world_two_requests 1 = Some h
          \<and> map request_transfer (reqs h)
              = map (\<lambda>(n, ty). Some (RGET, uint n, ty)) (chunking_plan 2147483652 1)
          \<and> length (reqs h) \<le> 2 \<and> \<not> needs_flush h)
   \<and> chunking_plan 2147483652 1
        = [(1, dart__mpi__max_chunk_datatype 1), (5, dart__mpi__datatype 1)]
   \<and> dart_put_handle env0 gptr1 5 1 world0 = (DART_OK, Some 1, world_put_request)
   \<and> (5 :: size_t) < chunked_transfer_limit
   \<and> (\<exists>h. live world_put_request 1 = Some h
          \<and> map request_transfer (reqs h)
              = map (\<lambda>(n, ty). Some (RPUT, uint n, ty)) (chunking_plan 5 1)
          \<and> length (reqs h) \<le> 2 \<and> needs_flush h)
   \<and> Some (1 :: nat) \<noteq> None
   \<and> shared_mem_fast_path env1 gptr1
   \<and> dart_get_handle env1 gptr1 5 1 world0
        = (DART_OK, None, \<lparr>trace = [memcpy 16 5], heap = []\<rparr>)
   \<and> (\<exists>addr. trace \<lparr>trace = [memcpy 16 5], heap = []\<rparr>
                = trace world0 @ [memcpy addr (5 * dart__mpi__datatype_sizeof env1 1)])"
proof -
  have e: "dart_get_handle env0 gptr1 2147483652 1 world0 = (DART_OK, Some 1, world_two_requests)"
    "(2147483652 :: size_t) < chunked_transfer_limit"
    "chunking_plan 2147483652 1
        = [(1, dart__mpi__max_chunk_datatype 1), (5, dart__mpi__datatype 1)]"
    "dart_put_handle env0 gptr1 5 1 world0 = (DART_OK, Some 1, world_put_request)"
    "(5 :: size_t) < chunked_transfer_limit"
    "shared_mem_fast_path env1 gptr1"
    "dart_get_handle env1 gptr1 5 1 world0
        = (DART_OK, None, \<lparr>trace = [memcpy 16 5], heap = []\<rparr>)"
    by code_simp+
  have g: "\<exists>h. live world_two_requests 1 = Some h
          \<and> map request_transfer (reqs h)
              = map (\<lambda>(n, ty). Some (RGET, uint n, ty)) (chunking_plan 2147483652 1)
          \<and> length (reqs h) \<le> 2 \<and> \<not> needs_flush h"
    using e(1,2) handle_sub_requests_follow_chunking_plan
           [of env0 gptr1 2147483652 1 world0 DART_OK 1 world_two_requests "Some 1"]
    by blast
  have p: "\<exists>h. live world_put_request 1 = Some h
          \<and> map request_transfer (reqs h)
              = map (\<lambda>(n, ty). Some (RPUT, uint n, ty)) (chunking_plan 5 1)
          \<and> length (reqs h) \<le> 2 \<and> needs_flush h"
    using e(4,5) handle_sub_requests_follow_chunking_plan
           [of env0 gptr1 5 1 world0 DART_OK 1 world_put_request "Some 1"]
    by blast
  have n: "Some (1 :: nat) \<noteq> None"
    using e(4) handle_sub_requests_follow_chunking_plan
           [of env0 gptr1 5 1 world0 DART_OK 1 world_put_request "Some 1"]
    by blast
  have f: "\<exists>addr. trace \<lparr>trace = [memcpy 16 5], heap = []\<rparr>
                = trace world0 @ [memcpy addr (5 * dart__mpi__datatype_sizeof env1 1)]"
    using e(6,7) handle_sub_requests_follow_chunking_plan
           [of env1 gptr1 5 1 world0 DART_OK 1 "\<lparr>trace = [memcpy 16 5], heap = []\<rparr>" None]
    by blast
  from e g p n f show ?thesis by (intro conjI) assumption+
qed

text \<open>
  Claim C2 as stated fails in two places. With a co-located target, for which the
  fast path of \<open>dart_get_handle\<close> fires, \<open>dart_put_handle\<close> issues \<open>MPI_Rput\<close> and
  returns a live handle. And for \<open>nelem = 2^31 * (2^31 - 1)\<close> the plan is one transfer of
  \<open>2^31\<close> chunks, while the request issued carries the count \<open>- 2^31\<close>.
\<close>

theorem put_handle_no_fast_path_and_count_overflow:
  "shared_mem_fast_path env1 gptr1
   \<and> dart_put_handle env1 gptr1 5 1 world0 = (DART_OK, Some 1, world_put_request)
   \<and> live world_put_request 1
       = Some \<lparr>dest = 1, win = 3, needs_flush = True,
               reqs = [Request RPUT 5 (dart__mpi__datatype 1) 1 16 3]\<rparr>
   \<and> chunking_plan 4611686016279904256 1 = [(2147483648, dart__mpi__max_chunk_datatype 1)]
   \<and> dart_get_handle env0 gptr1 4611686016279904256 1 world0
       = (DART_OK, Some 1,
          \<lparr>trace = [MPI_Rget (- 2147483648) (dart__mpi__max_chunk_datatype 1) 1 16 3],
           heap = [(1, \<lparr>dest = 1, win = 3, needs_flush = False,
                        reqs = [Request RGET (- 2147483648) (dart__mpi__max_chunk_datatype 1)
                                  1 16 3]\<rparr>)]\<rparr>)"
  by code_simp

text \<open>
  Claim C10. Whenever \<open>dart_get_handle\<close> or \<open>dart_put_handle\<close> returns an error, the
  caller's handle variable is \<open>DART_HANDLE_NULL\<close> and the heap of handles is what it was
  before the call: a handle that was allocated has been freed.
\<close>

theorem handle_error_returns_null_handle:
  assumes "dart_get_handle env gptr nelem dtype w = (ret, hv, w')
           \<or> dart_put_handle env gptr nelem dtype w = (ret, hv, w')"
    and "ret \<noteq> DART_OK"
  shows "hv = None \<and> heap w' = heap w"
  using assms
  by (auto simp: dart_get_handle_def dart_put_handle_def
      split: option.splits if_splits prod.splits
      dest: handle_transfer_error get_shared_mem_result)

text \<open>
  The theorem at work on a transport whose second call fails: the chunk request has
  been issued, the remainder request fails, and the handle allocated in between is gone.
\<close>

theorem handle_error_returns_null_handle_witness:
  "dart_get_handle env2 gptr1 2147483652 1 world0
     = (DART_ERR_INVAL, None,
        \<lparr>trace = [MPI_Rget 1 (dart__mpi__max_chunk_datatype 1) 1 16 3,
                  MPI_Rget 5 (dart__mpi__datatype 1) 1 2147483663 3],
         heap = []\<rparr>)
   \<and> DART_ERR_INVAL \<noteq> DART_OK
   \<and> heap \<lparr>trace = [MPI_Rget 1 (dart__mpi__max_chunk_datatype 1) 1 16 3,
                    MPI_Rget 5 (dart__mpi__datatype 1) 1 2147483663 3],
           heap = []\<rparr> = heap world0"
proof -
  have e: "dart_get_handle env2 gptr1 2147483652 1 world0
     = (DART_ERR_INVAL, None,
        \<lparr>trace = [MPI_Rget 1 (dart__mpi__max_chunk_datatype 1) 1 16 3,
                  MPI_Rget 5 (dart__mpi__datatype 1) 1 2147483663 3],
         heap = []\<rparr>)"
    by code_simp
  from handle_error_returns_null_handle [OF disjI1 [OF e]] e show ?thesis by simp
qed

subsection \<open>The unit id range check\<close>

lemma CHECK_UNITID_RANGE_iff:
  "CHECK_UNITID_RANGE u td \<longleftrightarrow> u < 0 \<or> team_size td < u"
  by (simp add: CHECK_UNITID_RANGE_def)

text \<open>
  A unit id that is negative or greater than the team size is refused before any
  transfer, by every operation that takes a unit.
\<close>

lemma unit_out_of_range_rejected:
  assumes "dart_adapt_teamlist_get env (teamid gptr) = Some td"
    and "CHECK_UNITID_RANGE (unitid gptr) td"
  shows "dart_get env gptr nelem dtype w = (DART_ERR_INVAL, w)"
    and "dart_put env gptr nelem dtype w = (DART_ERR_INVAL, w)"
    and "dart_accumulate env gptr nelem dtype op w = (DART_ERR_INVAL, w)"
    and "dart_fetch_and_op env gptr dtype op w = (DART_ERR_INVAL, w)"
    and "dart_compare_and_swap env gptr dtype w = (DART_ERR_INVAL, w)"
    and "dart_get_handle env gptr nelem dtype w = (DART_ERR_INVAL, None, w)"
    and "dart_put_handle env gptr nelem dtype w = (DART_ERR_INVAL, None, w)"
    and "dart_get_blocking env gptr nelem dtype w = (DART_ERR_INVAL, w)"
    and "dart_put_blocking env gptr nelem dtype w = (DART_ERR_INVAL, w)"
  using assms
  by (simp_all add: dart_get_def dart_put_def dart_accumulate_def dart_fetch_and_op_def
      dart_compare_and_swap_def dart_get_handle_def dart_put_handle_def
      dart_get_blocking_def dart_put_blocking_def)

lemma root_out_of_range_rejected:
  assumes "dart_adapt_teamlist_get env team = Some td"
    and "CHECK_UNITID_RANGE root td"
  shows "dart_bcast env nelem dtype root team w = (DART_ERR_INVAL, w)"
    and "dart_scatter env nelem dtype root team w = (DART_ERR_INVAL, w)"
    and "dart_gather env nelem dtype root team w = (DART_ERR_INVAL, w)"
    and "dart_reduce env nelem dtype op root team w = (DART_ERR_INVAL, w)"
  using assms
  by (simp_all add: dart_bcast_def dart_scatter_def dart_gather_def dart_reduce_def)

lemma peer_out_of_range_rejected:
  assumes "dart_adapt_teamlist_get env (DART_TEAM_ALL env) = Some td"
    and "CHECK_UNITID_RANGE unit td"
  shows "dart_send env nelem dtype tag unit w = (DART_ERR_INVAL, w)"
    and "dart_recv env nelem dtype tag unit w = (DART_ERR_INVAL, w)"
    and "dart_sendrecv env nelem dtype tag unit nelem' dtype' tag' src w = (DART_ERR_INVAL, w)"
    and "dart_sendrecv env nelem dtype tag src nelem' dtype' tag' unit w = (DART_ERR_INVAL, w)"
  using assms
  by (simp_all add: dart_send_def dart_recv_def dart_sendrecv_def)

text \<open>
  Claim C1. Every operation that takes a destination or root unit returns
  \<open>DART_ERR_INVAL\<close> without a transfer when the unit id is not a rank of the team. This
  fails for the unit id equal to the team size: the macro tests \<open>id > size\<close>, while its
  own message reads \<open>0 <= id < size\<close>. On a team of four units, \<open>dart_fetch_and_op\<close> on
  unit 4 passes the check, calls the transport with target rank 4 and returns
  \<open>DART_OK\<close>.
\<close>

theorem fetch_and_op_accepts_unit_equal_to_team_size:
  "team_size team0 = 4 \<and> unitid gptr4 = 4 \<and>
   dart_fetch_and_op env0 gptr4 3 2 world0
     = (DART_OK, \<lparr>trace = [MPI_Fetch_and_op (dart__mpi__datatype 3) 4 16 2 3], heap = []\<rparr>)"
  by code_simp

subsection \<open>Waiting and testing\<close>

text \<open>
  Claim C3. When \<open>dart_test_local\<close> finds the sub-requests of a handle unfinished, it
  leaves the handle alone: not freed, the caller's variable not NULL, \<open>DART_OK\<close> with
  \<open>is_finished\<close> reporting 0. This fails: the source tests the pointer \<open>is_finished\<close>
  instead of the flag, so the handle is freed and the variable set to NULL although
  the transport reported the request unfinished. The handle here is the one
  \<open>dart_get_handle\<close> returns for a read of 5 elements from unit 1.
\<close>

theorem test_local_frees_unfinished_handle:
  "dart_get_handle env0 gptr1 5 1 world0 = (DART_OK, Some 1, world_pending) \<and>
   testall_flag env0 (trace world_pending)
     [Request RGET 5 (dart__mpi__datatype 1) 1 16 3] = False \<and>
   dart_test_local env0 (Some (Some 1)) (Some 1) world_pending
     = Some (DART_OK, Some None, Some 0,
             \<lparr>trace = [MPI_Rget 5 (dart__mpi__datatype 1) 1 16 3,
                        MPI_Testall [Request RGET 5 (dart__mpi__datatype 1) 1 16 3]],
              heap = []\<rparr>)"
  by code_simp

text \<open>The array variant tests the flag and keeps the handle of the same world.\<close>

lemma testall_local_keeps_unfinished_handle:
  "dart_testall_local env0 (Some [Some 1]) 1 (Some 1) world_pending
     = Some (DART_OK, Some [Some 1], Some 0,
             \<lparr>trace = [MPI_Rget 5 (dart__mpi__datatype 1) 1 16 3,
                        MPI_Testall [Request RGET 5 (dart__mpi__datatype 1) 1 16 3]],
              heap = [(1, \<lparr>dest = 1, win = 3, needs_flush = False,
                           reqs = [Request RGET 5 (dart__mpi__datatype 1) 1 16 3]\<rparr>)]\<rparr>)"
  by code_simp

lemma dart_wait_success:
  "dart_wait env (Some (Some a)) w = Some (DART_OK, hv, w') \<Longrightarrow>
   hv = Some None \<and> live w' a = None"
  by (auto simp: dart_wait_def live_free_same split: option.splits if_splits prod.splits)

lemma dart_waitall_success:
  assumes "dart_waitall env (Some hs) n w = Some (DART_OK, hs', w')"
    and "n \<noteq> 0" and "collect_reqs w (take (unat n) hs) \<noteq> Some []"
  shows "hs' = Some (replicate (unat n) None @ drop (unat n) hs)
         \<and> list_all (freed w') (take (unat n) hs)"
  using assms
  by (auto simp: dart_waitall_def split: option.splits if_splits prod.splits
      dest: free_handles_frees)

text \<open>
  What the waiting functions do guarantee. A NULL handle pointer or a NULL handle passed
  to \<open>dart_wait\<close>, \<open>dart_wait_local\<close> or \<open>dart_test_local\<close> is a no-op returning
  \<open>DART_OK\<close> (\<open>dart_test_local\<close> reports finished); a NULL handle array passed to
  \<open>dart_waitall\<close> or \<open>dart_waitall_local\<close> is a no-op returning \<open>DART_OK\<close> when the
  count is at most \<open>INT_MAX\<close>. After a successful \<open>dart_wait\<close> the handle has been freed
  and the caller's variable is NULL, whatever the number of its requests. After a
  successful \<open>dart_waitall\<close> that collected at least one request, every handle among
  the first \<open>n\<close> has been freed and its variable is NULL.
\<close>

lemma null_handles_and_successful_waits:
  "dart_wait env None w = Some (DART_OK, None, w)
   \<and> dart_wait env (Some None) w = Some (DART_OK, Some None, w)
   \<and> dart_wait_local env None w = Some (DART_OK, None, w)
   \<and> dart_wait_local env (Some None) w = Some (DART_OK, Some None, w)
   \<and> dart_test_local env None (Some v) w = Some (DART_OK, None, Some 1, w)
   \<and> dart_test_local env (Some None) (Some v) w = Some (DART_OK, Some None, Some 1, w)
   \<and> (n \<le> INT_MAX \<longrightarrow>
        dart_waitall env None n w = Some (DART_OK, None, w)
        \<and> dart_waitall_local env None n w = Some (DART_OK, None, w))
   \<and> (dart_wait env (Some (Some a)) w = Some (DART_OK, hv, w') \<longrightarrow>
        hv = Some None \<and> live w' a = None)
   \<and> (dart_waitall env (Some hs) n w = Some (DART_OK, hs', w') \<longrightarrow>
        n \<noteq> 0 \<longrightarrow> collect_reqs w (take (unat n) hs) \<noteq> Some [] \<longrightarrow>
        hs' = Some (replicate (unat n) None @ drop (unat n) hs)
        \<and> list_all (freed w') (take (unat n) hs))"
proof -
  have A: "dart_wait env None w = Some (DART_OK, None, w)"
    "dart_wait env (Some None) w = Some (DART_OK, Some None, w)"
    "dart_wait_local env None w = Some (DART_OK, None, w)"
    "dart_wait_local env (Some None) w = Some (DART_OK, Some None, w)"
    "dart_test_local env None (Some v) w = Some (DART_OK, None, Some 1, w)"
    "dart_test_local env (Some None) (Some v) w = Some (DART_OK, Some None, Some 1, w)"
    by (simp_all add: dart_wait_def dart_wait_local_def dart_test_local_def)
  have B: "dart_waitall env None n w = Some (DART_OK, None, w)
        \<and> dart_waitall_local env None n w = Some (DART_OK, None, w)" if "n \<le> INT_MAX"
    using that by (simp add: dart_waitall_def dart_waitall_local_def not_less [symmetric])
  from A B dart_wait_success dart_waitall_success show ?thesis by blast
qed

text \<open>
  On the handle of a write of 5 elements \<open>dart_wait\<close> and \<open>dart_waitall\<close> wait for the
  request, flush the target, free the handle and store NULL.
\<close>

lemma null_handles_and_successful_waits_example:
  "(1 :: size_t) \<le> INT_MAX
   \<and> dart_waitall env0 None 1 world0 = Some (DART_OK, None, world0)
   \<and> dart_waitall_local env0 None 1 world0 = Some (DART_OK, None, world0)
   \<and> dart_wait env0 (Some (Some 1)) world_put_request
       = Some (DART_OK, Some None,
               \<lparr>trace = [MPI_Rput 5 (dart__mpi__datatype 1) 1 16 3,
                          MPI_Waitall [Request RPUT 5 (dart__mpi__datatype 1) 1 16 3],
                          MPI_Win_flush 1 3],
                heap = []\<rparr>)
   \<and> live \<lparr>trace = [MPI_Rput 5 (dart__mpi__datatype 1) 1 16 3,
                     MPI_Waitall [Request RPUT 5 (dart__mpi__datatype 1) 1 16 3],
                     MPI_Win_flush 1 3],
           heap = []\<rparr> 1 = None
   \<and> dart_waitall env0 (Some [Some 1, None]) 2 world_put_request
       = Some (DART_OK, Some [None, None],
               \<lparr>trace = [MPI_Rput 5 (dart__mpi__datatype 1) 1 16 3,
                          MPI_Waitall [Request RPUT 5 (dart__mpi__datatype 1) 1 16 3],
                          MPI_Win_flush 1 3],
                heap = []\<rparr>)
   \<and> (2 :: size_t) \<noteq> 0
   \<and> collect_reqs world_put_request (take (unat (2 :: size_t)) [Some 1, None]) \<noteq> Some []
   \<and> list_all (freed \<lparr>trace = [MPI_Rput 5 (dart__mpi__datatype 1) 1 16 3,
                     MPI_Waitall [Request RPUT 5 (dart__mpi__datatype 1) 1 16 3],
                     MPI_Win_flush 1 3],
           heap = []\<rparr>) (take (unat (2 :: size_t)) [Some 1, None])"
proof -
  have e: "(1 :: size_t) \<le> INT_MAX"
    "dart_wait env0 (Some (Some 1)) world_put_request
       = Some (DART_OK, Some None,
               \<lparr>trace = [MPI_Rput 5 (dart__mpi__datatype 1) 1 16 3,
                          MPI_Waitall [Request RPUT 5 (dart__mpi__datatype 1) 1 16 3],
                          MPI_Win_flush 1 3],
                heap = []\<rparr>)"
    "dart_waitall env0 (Some [Some 1, None]) 2 world_put_request
       = Some (DART_OK, Some [None, None],
               \<lparr>trace = [MPI_Rput 5 (dart__mpi__datatype 1) 1 16 3,
                          MPI_Waitall [Request RPUT 5 (dart__mpi__datatype 1) 1 16 3],
                          MPI_Win_flush 1 3],
                heap = []\<rparr>)"
    "(2 :: size_t) \<noteq> 0"
    "collect_reqs world_put_request (take (unat (2 :: size_t)) [Some 1, None]) \<noteq> Some []"
    by code_simp+
  from e null_handles_and_successful_waits [of env0 world0 _ 1]
    null_handles_and_successful_waits [of env0 world_put_request _ 2 1 "Some None" _
      "[Some 1, None]" "Some [None, None]"]
  show ?thesis by simp
qed

text \<open>
  The count is tested before the array: with a count above \<open>INT_MAX\<close> both array
  functions return \<open>DART_ERR_INVAL\<close> and touch nothing, also for a NULL array.
\<close>

lemma waitall_count_above_INT_MAX:
  assumes "n > INT_MAX"
  shows "dart_waitall env handles n w = Some (DART_ERR_INVAL, handles, w)"
    and "dart_waitall_local env handles n w = Some (DART_ERR_INVAL, handles, w)"
proof -
  from assms have "n \<noteq> 0" by (auto simp: INT_MAX_def)
  with assms show "dart_waitall env handles n w = Some (DART_ERR_INVAL, handles, w)"
    and "dart_waitall_local env handles n w = Some (DART_ERR_INVAL, handles, w)"
    by (simp_all add: dart_waitall_def dart_waitall_local_def)
qed

lemma waitall_null_array_large_count:
  "dart_waitall env0 None 2147483648 world0 = Some (DART_ERR_INVAL, None, world0)"
  by code_simp

text \<open>
  Without a request to wait for, \<open>dart_waitall\<close> returns \<open>DART_OK\<close> before its freeing
  loop, whatever the handles are: the world and the array are those of the call.
\<close>

lemma waitall_without_requests_frees_nothing:
  assumes "n \<noteq> 0" and "n \<le> INT_MAX" and "unat n \<le> length hs"
    and "collect_reqs w (take (unat n) hs) = Some []"
  shows "dart_waitall env (Some hs) n w = Some (DART_OK, Some hs, w)"
  using assms by (simp add: dart_waitall_def not_less [symmetric])

text \<open>
  Claim C4. Passing a NULL handle, a NULL handle pointer or a NULL handle array to the
  waiting functions is a no-op returning \<open>DART_OK\<close>, and after a successful \<open>dart_wait\<close>
  or \<open>dart_waitall\<close> every handle passed in has been freed and the caller's variable is
  NULL. \<open>dart_waitall\<close> fails the second half: a write of 0 elements returns a handle
  without requests; \<open>dart_waitall\<close> on it returns \<open>DART_OK\<close> and leaves the handle live
  and the variable set, in an unchanged world, where \<open>dart_wait\<close> on the same handle
  frees it and stores NULL.
\<close>

theorem waitall_keeps_handle_without_requests:
  "dart_put_handle env0 gptr1 0 1 world0 = (DART_OK, Some 1, world_empty_handle) \<and>
   live world_empty_handle 1
     = Some \<lparr>dest = 1, win = 3, needs_flush = True, reqs = []\<rparr> \<and>
   dart_waitall env0 (Some [Some 1]) 1 world_empty_handle
     = Some (DART_OK, Some [Some 1], world_empty_handle) \<and>
   freed world_empty_handle (Some 1) = False \<and>
   dart_wait env0 (Some (Some 1)) world_empty_handle
     = Some (DART_OK, Some None, world0) \<and>
   freed world0 (Some 1) = True"
  by code_simp

subsection \<open>Reductions\<close>

text \<open>
  Claim C9, as amended. \<open>dart_allreduce\<close> and \<open>dart_reduce\<close> return \<open>DART_ERR_INVAL\<close>
  without a transport call whenever \<open>nelem > CHUNK\<close>. For \<open>nelem \<le> CHUNK\<close> on a known
  team (and, for \<open>dart_reduce\<close>, a root that passes the unit range check) they make
  exactly one transport call, a reduction of all \<open>nelem\<close> elements of the base datatype.
  With an unknown team, or a root that fails the check, they return \<open>DART_ERR_INVAL\<close>
  without a transport call.
\<close>

theorem reductions_are_not_chunked:
  "(nelem > MAX_CONTIG_ELEMENTS \<longrightarrow>
      dart_allreduce env nelem dtype op team w = (DART_ERR_INVAL, w)
      \<and> dart_reduce env nelem dtype op root team w = (DART_ERR_INVAL, w))
   \<and> (nelem \<le> MAX_CONTIG_ELEMENTS \<longrightarrow> dart_adapt_teamlist_get env team = Some td \<longrightarrow>
        trace (snd (dart_allreduce env nelem dtype op team w))
          = trace w @ [MPI_Allreduce nelem (dart__mpi__datatype dtype) op (comm td)]
        \<and> (\<not> CHECK_UNITID_RANGE root td \<longrightarrow>
             trace (snd (dart_reduce env nelem dtype op root team w))
               = trace w @ [MPI_Reduce nelem (dart__mpi__datatype dtype) op root (comm td)])
        \<and> (CHECK_UNITID_RANGE root td \<longrightarrow>
             dart_reduce env nelem dtype op root team w = (DART_ERR_INVAL, w)))
   \<and> (dart_adapt_teamlist_get env team = None \<longrightarrow>
        dart_allreduce env nelem dtype op team w = (DART_ERR_INVAL, w)
        \<and> dart_reduce env nelem dtype op root team w = (DART_ERR_INVAL, w))"
  by (auto simp: dart_allreduce_def dart_reduce_def mpi_def split: option.splits)

text \<open>The theorem at work on the team of four units.\<close>

theorem reductions_are_not_chunked_witness:
  "(2147483648 :: size_t) > MAX_CONTIG_ELEMENTS
   \<and> dart_allreduce env0 2147483648 1 0 0 world0 = (DART_ERR_INVAL, world0)
   \<and> dart_reduce env0 2147483648 1 0 2 0 world0 = (DART_ERR_INVAL, world0)
   \<and> (2147483647 :: size_t) \<le> MAX_CONTIG_ELEMENTS
   \<and> dart_adapt_teamlist_get env0 0 = Some team0
   \<and> trace (snd (dart_allreduce env0 2147483647 1 0 0 world0))
       = trace world0 @ [MPI_Allreduce 2147483647 (dart__mpi__datatype 1) 0 (comm team0)]
   \<and> \<not> CHECK_UNITID_RANGE 2 team0
   \<and> trace (snd (dart_reduce env0 2147483647 1 0 2 0 world0))
       = trace world0 @ [MPI_Reduce 2147483647 (dart__mpi__datatype 1) 0 2 (comm team0)]
   \<and> CHECK_UNITID_RANGE 5 team0
   \<and> dart_reduce env0 2147483647 1 0 5 0 world0 = (DART_ERR_INVAL, world0)
   \<and> dart_adapt_teamlist_get env0 5 = None
   \<and> dart_allreduce env0 1 1 0 5 world0 = (DART_ERR_INVAL, world0)"
proof -
  have e: "(2147483648 :: size_t) > MAX_CONTIG_ELEMENTS"
    "(2147483647 :: size_t) \<le> MAX_CONTIG_ELEMENTS"
    "dart_adapt_teamlist_get env0 0 = Some team0"
    "\<not> CHECK_UNITID_RANGE 2 team0"
    "CHECK_UNITID_RANGE 5 team0"
    "dart_adapt_teamlist_get env0 5 = None"
    by (simp_all add: MAX_CONTIG_ELEMENTS_def env0_def CHECK_UNITID_RANGE_def team0_def)
  from e reductions_are_not_chunked [of 2147483648 env0 1 0 0 world0 2]
    reductions_are_not_chunked [of 2147483647 env0 1 0 0 world0 2 team0]
    reductions_are_not_chunked [of 2147483647 env0 1 0 0 world0 5 team0]
    reductions_are_not_chunked [of 1 env0 1 0 5 world0 2]
  show ?thesis by simp
qed

text \<open>
  Claim C9 as stated fails for one element on a team that does not exist: no transport
  call is made.
\<close>

theorem allreduce_unknown_team_no_call:
  "(1 :: size_t) \<le> MAX_CONTIG_ELEMENTS \<and>
   dart_adapt_teamlist_get env0 5 = None \<and>
   dart_allreduce env0 1 1 0 5 world0 = (DART_ERR_INVAL, world0) \<and>
   trace (snd (dart_allreduce env0 1 1 0 5 world0)) = []"
  by code_simp

section \<open>Properties of the subset barrier\<close>

text \<open>A unit that is not in the container returns without communicating.\<close>

lemma sync_images_not_participating:
  "myid \<notin> set image_ids \<Longrightarrow> sync_images env myid image_ids w = w"
  by (simp add: sync_images_def)

text \<open>The element at the smaller of the two iterator positions is the first one.\<close>

lemma sync_images_root_position:
  "image_ids \<noteq> [] \<Longrightarrow> image_ids ! (min 0 (length image_ids)) = hd image_ids"
  by (simp add: hd_conv_nth)

text \<open>
  Claim C5. Units outside the subset return at once, and the unit with the smallest id
  of the subset is the root of the two-phase rendezvous. The second part fails:
  \<open>std::min\<close> is applied to the iterators, not to the elements, so the root is the first
  element of the container. For the container \<open>[3, 1]\<close>, unit 1 (the smallest id) sends
  to unit 3 and then receives from it, and unit 3 receives from unit 1 and then sends
  to it: unit 3 is the root.
\<close>

theorem sync_images_root_is_first_element:
  "trace (sync_images env0 1 [3, 1] world0)
     = [MPI_Send 1 (dart__mpi__datatype 1) 3 10016 9,
        MPI_Recv 1 (dart__mpi__datatype 1) 3 10016 9] \<and>
   trace (sync_images env0 3 [3, 1] world0)
     = [MPI_Recv 1 (dart__mpi__datatype 1) 1 10016 9,
        MPI_Send 1 (dart__mpi__datatype 1) 1 10016 9]"
  by code_simp

section \<open>Properties of the locality tree\<close>

text \<open>
  Claim C6. The sizes of the groups of a split follow the ceil rule, are never negative
  and sum to the number of domains. This fails: the size of the group that is not full
  is computed as \<open>g * max - num_domains\<close>, the negation of the remainder. Three NUMA
  domains split into two parts give the sizes 2 and -1.
\<close>

theorem split_tags_three_domains_two_parts:
  "dart__base__locality__scope_domains root0 DART_LOCALITY_SCOPE_NUMA
     = (DART_OK, [''.0.0'', ''.0.1'', ''.0.2''])
   \<and> dart__base__locality__domain_split_tags root0 DART_LOCALITY_SCOPE_NUMA 2
     = Some (DART_OK, [2, - 1], [[''.0.0'', ''.0.1''], []])"
  by code_simp

text \<open>Where the number of parts divides the number of domains the sizes are right: two
  nodes split into two parts give two groups of one node.\<close>

lemma split_tags_two_domains_two_parts:
  "dart__base__locality__domain_split_tags root_two_nodes DART_LOCALITY_SCOPE_NODE 2
     = Some (DART_OK, [1, 1], [[''.0''], [''.1'']])"
  by code_simp

subsection \<open>The child vector after grouping\<close>

lemma partition_subdomains_groups:
  "partition_subdomains tags ds = (gs, ss, us, rest) \<Longrightarrow>
   gs = filter (\<lambda>d. scope d = DART_LOCALITY_SCOPE_GROUP) ds"
  by (induction ds arbitrary: tags gs ss us rest) (auto split: if_splits prod.splits)

lemma domain_tag_set_relative_index [simp]:
  "domain_tag (set_relative_index i d) = domain_tag d"
  by (cases d) simp

lemma scope_set_relative_index [simp]:
  "scope (set_relative_index i d) = scope d"
  by (cases d) simp

lemma length_indexed [simp]: "length (indexed s xs) = length xs"
  by (simp add: indexed_def)

lemma map_snd_indexed [simp]: "map snd (indexed s xs) = xs"
  by (simp add: indexed_def)

lemma map_tag_indexed:
  "map (domain_tag \<circ> (\<lambda>(i, d). set_relative_index i d)) (indexed s xs) = map domain_tag xs"
  by (rule nth_equalityI) (simp_all add: indexed_def)

text \<open>
  Whenever \<open>group_subdomains\<close> succeeds, the child vector is: the existing groups with
  their tags, the new group (scope GROUP, tagged with the parent's tag and its own
  index), the ungrouped children with their tags as they were.
\<close>

lemma group_subdomains_shape:
  assumes "dart__base__locality__group_subdomains d tags = (DART_OK, d')"
    and "partition_subdomains (sort tags) (domains d) = (gs, ss, us, rest)"
  shows "length (domains d') = length gs + 1 + length us
         \<and> map domain_tag (take (length gs) (domains d')) = map domain_tag gs
         \<and> scope (domains d' ! length gs) = DART_LOCALITY_SCOPE_GROUP
         \<and> domain_tag (domains d' ! length gs)
             = domain_tag d @ ''.'' @ sprintf_d (int (length gs))
         \<and> map domain_tag (drop (length gs + 1) (domains d')) = map domain_tag us"
proof -
  have k: "filter (\<lambda>d. scope d = DART_LOCALITY_SCOPE_GROUP) (domains d) = gs"
    using partition_subdomains_groups [OF assms(2)] by simp
  from assms k show ?thesis
    by (auto simp: dart__base__locality__group_subdomains_def Let_def map_tag_indexed
        nth_append split: if_splits)
qed

text \<open>
  Claim C7. After \<open>group_subdomains\<close> the child vector holds the existing groups, then
  the remaining children, then the new group as the last child, and the tags of the
  remaining children are their new indices. This fails: the new group is written at
  the index after the existing groups, in front of the remaining children, and of a
  remaining child only the relative index is written. Grouping the NUMA domain \<open>.0.1\<close>
  of the node \<open>.0\<close> puts the group first, with tag \<open>.0.0\<close>, and leaves the former first
  child at index 1 with its old tag \<open>.0.0\<close>.
\<close>

theorem group_subdomains_places_group_before_remaining:
  "dart__base__locality__group_subdomains node0 [''.0.1''] = (DART_OK, node0_grouped)
   \<and> map scope (domains node0_grouped)
       = [DART_LOCALITY_SCOPE_GROUP, DART_LOCALITY_SCOPE_NUMA, DART_LOCALITY_SCOPE_NUMA]
   \<and> map domain_tag (domains node0_grouped) = [''.0.0'', ''.0.0'', ''.0.2'']
   \<and> map relative_index (domains node0_grouped) = [0, 1, 2]"
  by code_simp

subsection \<open>The tag walk on a tree whose tags follow the positions\<close>

lemma decimal_digits_nonempty: "decimal_digits n \<noteq> []"
  by (induction n rule: decimal_digits.induct) (subst decimal_digits.simps, simp)

lemma isdigit_char_of: "d < 10 \<Longrightarrow> isdigit (char_of (48 + d :: nat))"
  by (simp add: isdigit_def) 

lemma decimal_digits_isdigit: "list_all isdigit (decimal_digits n)"
proof (induction n rule: decimal_digits.induct)
  case (1 n)
  show ?case
  proof (cases "n < 10")
    case True
    then show ?thesis by (subst decimal_digits.simps) (simp add: isdigit_char_of)
  next
    case False
    have "n mod 10 < 10" by simp
    with False 1 show ?thesis
      by (subst decimal_digits.simps) (simp add: isdigit_char_of)
  qed
qed

lemma of_char_digit: "d < 10 \<Longrightarrow> (of_char (char_of (48 + d :: nat)) :: int) = 48 + int d"
proof -
  assume d: "d < 10"
  have "(of_char (char_of (48 + d)) :: int) = int (of_char (char_of (48 + d)))"
    by (simp only: of_nat_of_char)
  also have "\<dots> = int ((48 + d) mod 256)" by (simp only: of_char_of)
  also have "\<dots> = 48 + int d" using d by simp
  finally show ?thesis .
qed

lemma decimal_value_append:
  "decimal_value (xs @ [c]) = 10 * decimal_value xs + (of_char c - 48)"
  by (simp add: decimal_value_def)

lemma decimal_value_digits: "decimal_value (decimal_digits n) = int n"
proof (induction n rule: decimal_digits.induct)
  case (1 n)
  show ?case
  proof (cases "n < 10")
    case True
    then show ?thesis
      by (subst decimal_digits.simps) (simp add: decimal_value_def of_char_digit)
  next
    case False
    have "n mod 10 < 10" by simp
    then have "(of_char (char_of (48 + n mod 10)) :: int) = 48 + int (n mod 10)"
      by (rule of_char_digit)
    moreover have "10 * int (n div 10) + int (n mod 10) = int n"
      by (simp add: zmod_int zdiv_int)
    ultimately show ?thesis
      using False 1 by (subst decimal_digits.simps) (simp add: decimal_value_append)
  qed
qed

lemma isdigit_not_space_sign:
  "isdigit c \<Longrightarrow> \<not> isspace c \<and> c \<noteq> CHR ''-'' \<and> c \<noteq> CHR ''+''"
  by (auto simp: isdigit_def isspace_def)

lemma takeWhile_digits:
  "list_all isdigit ds \<Longrightarrow> r = [] \<or> \<not> isdigit (hd r) \<Longrightarrow>
   takeWhile isdigit (ds @ r) = ds \<and> dropWhile isdigit (ds @ r) = r"
  by (induction ds) (cases r; auto)+

lemma strtol_decimal_digits:
  assumes "r = [] \<or> \<not> isdigit (hd r)" and "int n \<le> LONG_MAX"
  shows "strtol (decimal_digits n @ r) = (int n, r)"
proof -
  obtain c cs where ds: "decimal_digits n = c # cs"
    using decimal_digits_nonempty [of n] by (cases "decimal_digits n") auto
  have all: "list_all isdigit (c # cs)"
    using decimal_digits_isdigit [of n] ds by simp
  then have c: "\<not> isspace c" "c \<noteq> CHR ''-''" "c \<noteq> CHR ''+''"
    using isdigit_not_space_sign [of c] by simp_all
  from takeWhile_digits [OF all assms(1)]
  have tw: "takeWhile isdigit ((c # cs) @ r) = c # cs"
    and dw: "dropWhile isdigit ((c # cs) @ r) = r"
    by simp_all
  have v: "decimal_value (c # cs) = int n"
    using decimal_value_digits [of n] ds by simp
  have m: "max (- LONG_MAX - 1) (min LONG_MAX (int n)) = int n"
    using assms(2) by (simp add: LONG_MAX_def)
  show ?thesis
    unfolding strtol_def ds
    using c tw dw v m by (simp add: Let_def)
qed

lemma path_tag_rest:
  "concat (map (\<lambda>i. CHR ''.'' # decimal_digits i) p) = r \<Longrightarrow> r = [] \<or> \<not> isdigit (hd r)"
  by (cases p) (auto simp: isdigit_def)

lemma domain_walk_path:
  assumes "domain_at_path d p = Some d'" and "list_all (\<lambda>i. i < 2 ^ 31) p"
  shows "domain_walk d acc (concat (map (\<lambda>i. CHR ''.'' # decimal_digits i) p))
         = Some (DART_OK, Some (acc @ p))"
  using assms
proof (induction p arbitrary: d acc)
  case Nil
  then show ?case by (subst domain_walk.simps) simp
next
  case (Cons i p)
  let ?r = "concat (map (\<lambda>i. CHR ''.'' # decimal_digits i) p)"
  from Cons.prems have i: "i < length (domains d)"
    and sub: "domain_at_path (domains d ! i) p = Some d'"
    and small: "i < 2 ^ 31" "list_all (\<lambda>i. i < 2 ^ 31) p"
    by (auto split: if_splits)
  have r: "?r = [] \<or> \<not> isdigit (hd ?r)"
    by (rule path_tag_rest) simp
  have "int i \<le> LONG_MAX" using small(1) by (simp add: LONG_MAX_def)
  from strtol_decimal_digits [OF r this]
  have st: "strtol (decimal_digits i @ ?r) = (int i, ?r)" .
  have stb: "signed_take_bit 31 (int i) = int i"
    using small(1) by (simp add: signed_take_bit_int_eq_self)
  have "domain_walk d acc (CHR ''.'' # decimal_digits i @ ?r)
        = domain_walk (domains d ! i) (acc @ [i]) ?r"
    using i st stb
    by (subst domain_walk.simps) (simp add: Let_def num_domains_def decimal_digits_nonempty)
  also have "\<dots> = Some (DART_OK, Some ((acc @ [i]) @ p))"
    by (rule Cons.IH [OF sub small(2)])
  finally show ?case by simp
qed

text \<open>
  Where the tag of a domain is the tag of its position (and no index reaches \<open>2^31\<close>),
  looking the tag up from the root returns the position of that domain.
\<close>

theorem tag_walk_finds_node:
  assumes "domain_at_path root p = Some d" and "list_all (\<lambda>i. i < 2 ^ 31) p"
    and "domain_tag d = path_tag p"
  shows "dart__base__locality__domain root (domain_tag d) = Some (DART_OK, Some p)"
proof (cases p)
  case Nil
  then show ?thesis
    using assms(3)
    by (simp add: dart__base__locality__domain_def path_tag_def)
      (subst domain_walk.simps, simp)
next
  case (Cons i q)
  then have t: "domain_tag d = CHR ''.'' # decimal_digits i
                  @ concat (map (\<lambda>i. CHR ''.'' # decimal_digits i) q)"
    using assms(3) by (simp add: path_tag_def)
  from domain_walk_path [OF assms(1,2), of "[]"] Cons t
  show ?thesis by (simp add: dart__base__locality__domain_def)
qed

text \<open>The tag walk finds every domain of the tree as it was built.\<close>

lemma tag_walk_before_grouping:
  "dart__base__locality__domain root0 ''.'' = Some (DART_OK, Some [])
   \<and> dart__base__locality__domain root0 ''.0'' = Some (DART_OK, Some [0])
   \<and> dart__base__locality__domain root0 ''.0.0'' = Some (DART_OK, Some [0, 0])
   \<and> dart__base__locality__domain root0 ''.0.1'' = Some (DART_OK, Some [0, 1])
   \<and> dart__base__locality__domain root0 ''.0.2'' = Some (DART_OK, Some [0, 2])"
  by code_simp

text \<open>
  Claim C8. Looking up a node's own tag from the root returns that node, also in a
  tree changed by grouping. This fails after \<open>group_subdomains\<close>: the domain at position
  \<open>[0, 1]\<close> of the grouped tree has the tag \<open>.0.0\<close>, and the walk along that tag ends at
  position \<open>[0, 0]\<close>, the new group.
\<close>

theorem tag_walk_after_grouping_finds_other_node:
  "dart__base__locality__group_subdomains node0 [''.0.1''] = (DART_OK, node0_grouped)
   \<and> domain_at_path root0_grouped [0, 1]
       = Some (dart_domain ''.0.0'' DART_LOCALITY_SCOPE_NUMA 2 1 1 2 [0, 1] [])
   \<and> dart__base__locality__domain root0_grouped ''.0.0'' = Some (DART_OK, Some [0, 0])
   \<and> domain_at_path root0_grouped [0, 0]
       = Some (dart_domain ''.0.0'' DART_LOCALITY_SCOPE_GROUP 2 0 1 2 [2, 3]
                 [dart_domain ''.0.0.0'' DART_LOCALITY_SCOPE_NUMA 3 0 1 2 [2, 3] []])"
  by code_simp

end
